theory Spec2Isabelle
  imports Main "HOL-Library.Sublist"
begin

section \<open>Data model\<close>

text \<open>
  The scheduled-action core of the backend: the routes \<open>schedule_upload\<close> and
  \<open>schedule_delete\<close> of \<open>app/routers/videos.py\<close>, the Celery tasks of
  \<open>app/tasks/upload_tasks.py\<close> and the service methods of
  \<open>app/services/youtube_service.py\<close> they call.

  Conventions of the embedding.
  \<^item> A \<open>datetime\<close> is an integer number of seconds; \<open>datetime.utcnow()\<close> is the
    parameter \<open>now\<close> of the operation that reads the clock.
  \<^item> A Mongo collection is the list of its documents. Module \<open>app.database\<close>, which
    hands out the database, is not among the sources: its collections are taken with
    the operations the code calls on them (\<open>find_one\<close>, \<open>find\<close>, \<open>update_one\<close>,
    \<open>delete_one\<close>), each done when the call returns. A document's \<open>_id\<close> is an
    \<open>ObjectId\<close>, as Mongo assigns it on insert and as the pydantic models declare
    it; a query \<open>{"_id": x}\<close> matches the documents whose \<open>_id\<close> is the BSON value
    \<open>x\<close>, so that a \<open>str\<close> matches no \<open>ObjectId\<close>.
  \<^item> A key that a document does not have and a key holding \<open>null\<close> are both
    \<open>None\<close>: the code reads them through \<open>.get\<close> and truth tests, which do not
    tell them apart.
  \<^item> Celery is the queue of the tasks it has accepted; a task id is a counter value
    (Celery draws a fresh uuid for every submission).
\<close>

type_synonym time = int

text \<open>An \<open>ObjectId\<close>, by its 24 hexadecimal digits; \<open>str_oid\<close> is Python's \<open>str\<close> of it.\<close>

datatype oid = Oid string

fun str_oid :: "oid \<Rightarrow> string" where
  "str_oid (Oid s) = s"

text \<open>The values that the code puts in a query for \<open>_id\<close>.\<close>

datatype bson = BObjectId oid | BString string
type_synonym task_id = nat

datatype VideoStatus =
  UPLOADING | UPLOADED | SCHEDULED | PROCESSING | PUBLISHED | FAILED | DELETED

datatype VideoPrivacy = PRIVATE | UNLISTED | PUBLIC

text \<open>
  \<open>VideoSchedule\<close>, the \<open>schedule\<close> sub-document. The last field is the key
  \<open>schedule.youtube_channel_id\<close>, which \<open>schedule_upload\<close> writes although the
  pydantic model does not declare it.
\<close>

record VideoSchedule =
  upload_scheduled_at :: "time option"
  delete_scheduled_at :: "time option"
  youtube_video_id :: "string option"
  youtube_url :: "string option"
  upload_job_id :: "task_id option"
  delete_job_id :: "task_id option"
  schedule_youtube_channel_id :: "oid option"

text \<open>
  A document of \<open>db.videos\<close>. \<open>youtube_channel_id\<close> is the top-level key that
  \<open>cleanup_expired_videos\<close> reads with \<open>video.get('youtube_channel_id', '')\<close>.
\<close>

record Video =
  v_id :: oid
  v_user_id :: oid
  title :: string
  description :: "string option"
  tags :: "string list"
  privacy :: VideoPrivacy
  thumbnail_url :: "string option"
  file_path :: string
  status :: VideoStatus
  schedule :: VideoSchedule
  youtube_channel_id :: "string option"
  updated_at :: time

record VideoUpdate =
  upd_title :: "string option"
  upd_description :: "string option"
  upd_tags :: "string list option"
  upd_privacy :: "VideoPrivacy option"
  upd_thumbnail_url :: "string option"

text \<open>A document of \<open>db.youtube_channels\<close>.\<close>

record YouTubeChannel =
  c_id :: oid
  c_user_id :: oid
  channel_id :: string
  access_token :: string
  refresh_token :: string
  token_expires_at :: time
  is_active :: bool

text \<open>
  \<open>google.oauth2.credentials.Credentials\<close>: the tokens and the expiry, which is
  \<open>None\<close> unless the constructor is given one.
\<close>

record Credentials =
  token :: string
  cred_refresh_token :: string
  expiry :: "time option"

datatype exc =
  Exception string
  | TypeError string
  | InvalidId
  | HTTPException nat string

section \<open>Collections\<close>

definition find_one :: "('a \<Rightarrow> bool) \<Rightarrow> 'a list \<Rightarrow> 'a option" where
  "find_one q docs = List.find q docs"

definition find_all :: "('a \<Rightarrow> bool) \<Rightarrow> 'a list \<Rightarrow> 'a list" where
  "find_all q docs = filter q docs"

text \<open>\<open>update_one\<close> changes the first document that matches, and nothing when none does.\<close>

fun update_one :: "('a \<Rightarrow> bool) \<Rightarrow> ('a \<Rightarrow> 'a) \<Rightarrow> 'a list \<Rightarrow> 'a list" where
  "update_one q f [] = []"
| "update_one q f (d # docs) = (if q d then f d # docs else d # update_one q f docs)"

fun delete_one :: "('a \<Rightarrow> bool) \<Rightarrow> 'a list \<Rightarrow> 'a list" where
  "delete_one q [] = []"
| "delete_one q (d # docs) = (if q d then docs else d # delete_one q docs)"

text \<open>
  The filter \<open>{"_id": x}\<close> on a document whose \<open>_id\<close> is the ObjectId \<open>i\<close>: equality
  of BSON values.
\<close>

definition matches_id :: "bson \<Rightarrow> oid \<Rightarrow> bool" where
  "matches_id x i = (x = BObjectId i)"

text \<open>
  \<open>bson.ObjectId(s)\<close> for a string: 24 hexadecimal digits, read without regard to
  case, or \<open>InvalidId\<close>.
\<close>

definition hex_lower :: "char \<Rightarrow> char" where
  "hex_lower c =
     (if c = CHR ''A'' then CHR ''a'' else if c = CHR ''B'' then CHR ''b''
      else if c = CHR ''C'' then CHR ''c'' else if c = CHR ''D'' then CHR ''d''
      else if c = CHR ''E'' then CHR ''e'' else if c = CHR ''F'' then CHR ''f'' else c)"

definition ObjectId :: "string \<Rightarrow> exc + oid" where
  "ObjectId s =
     (if length s = 24 \<and> list_all (\<lambda>c. c \<in> set ''0123456789abcdefABCDEF'') s
      then Inr (Oid (map hex_lower s)) else Inl InvalidId)"

text \<open>Python's truth test of an optional string: \<open>None\<close> and \<open>''\<close> are false.\<close>

definition truthy :: "string option \<Rightarrow> bool" where
  "truthy x = (case x of None \<Rightarrow> False | Some s \<Rightarrow> s \<noteq> [])"

section \<open>Celery\<close>

text \<open>A task's arguments are the strings the caller passed.\<close>

datatype task_call =
  UploadCall string string string
  | DeleteCall string string string string

record task =
  task_ident :: task_id
  call :: task_call
  eta :: "time option"
  retries :: nat

record state =
  videos :: "Video list"
  youtube_channels :: "YouTubeChannel list"
  queue :: "task list"
  next_task_id :: task_id

datatype task_outcome = TaskSuccess | TaskRetry | TaskFailure exc

text \<open>\<open>apply_async(args, eta)\<close>: the task joins the queue under a new id, which is returned.\<close>

definition apply_async :: "task_call \<Rightarrow> time option \<Rightarrow> state \<Rightarrow> task_id \<times> state" where
  "apply_async c at s =
     (next_task_id s,
      s\<lparr>queue := queue s @ [\<lparr>task_ident = next_task_id s, call = c, eta = at, retries = 0\<rparr>],
        next_task_id := Suc (next_task_id s)\<rparr>)"

definition delay :: "task_call \<Rightarrow> state \<Rightarrow> task_id \<times> state" where
  "delay c s = apply_async c None s"

text \<open>
  \<open>self.retry(exc=e, countdown=60, max_retries=3)\<close>: Celery counts the retries of the
  request; when one more would pass \<open>max_retries\<close> the exception is raised and the task
  has failed, otherwise the same task (same id) is sent again for \<open>now + countdown\<close>.
\<close>

definition task_retry :: "task \<Rightarrow> time \<Rightarrow> time \<Rightarrow> nat \<Rightarrow> exc \<Rightarrow> state \<Rightarrow> task_outcome \<times> state" where
  "task_retry self now countdown max_retries e s =
     (if retries self + 1 > max_retries then (TaskFailure e, s)
      else (TaskRetry,
            s\<lparr>queue := queue s @ [self\<lparr>retries := retries self + 1, eta := Some (now + countdown)\<rparr>]\<rparr>))"

section \<open>YouTubeService\<close>

text \<open>
  The Google client libraries and the platform behind them are the parameter
  \<open>remote\<close>: how long before its expiry the library counts a credential as
  expired, what the token
  endpoint answers to a refresh, and what \<open>videos().insert\<close> (the whole chunked
  transfer, giving the response's \<open>id\<close> when it has one) and \<open>videos().delete\<close>
  answer. An \<open>Inl\<close> is the exception the library raises, as \<open>HttpError\<close> with status
  404 for a video that is not there.
\<close>

datatype http_error = HttpError nat | TransportError

record video_data =
  vd_title :: string
  vd_description :: string
  vd_tags :: "string list"
  vd_privacy :: VideoPrivacy

record remote =
  clock_skew :: time
  cred_refresh :: "Credentials \<Rightarrow> http_error + Credentials"
  videos_insert :: "string \<Rightarrow> video_data \<Rightarrow> http_error + string option"
  videos_delete :: "string \<Rightarrow> http_error + unit"

record upload_result =
  res_video_id :: string
  res_video_url :: string

text \<open>\<open>get_credentials_from_token\<close> gives the constructor no expiry.\<close>

definition get_credentials_from_token :: "string \<Rightarrow> string \<Rightarrow> Credentials" where
  "get_credentials_from_token access refresh =
     \<lparr>token = access, cred_refresh_token = refresh, expiry = None\<rparr>"

text \<open>The property \<open>credentials.expired\<close>: false when there is no expiry.\<close>

definition expired :: "remote \<Rightarrow> time \<Rightarrow> Credentials \<Rightarrow> bool" where
  "expired rm now credentials =
     (case expiry credentials of
        None \<Rightarrow> False
      | Some t \<Rightarrow> t - clock_skew rm \<le> now)"

text \<open>
  The bodies of the \<open>async def\<close> methods: what a call gives once it is awaited.
  The credentials argument only builds the client, so the bodies take it as it comes.
\<close>

definition refresh_credentials :: "remote \<Rightarrow> time \<Rightarrow> Credentials \<Rightarrow> Credentials option" where
  "refresh_credentials rm now credentials =
     (if expired rm now credentials \<and> cred_refresh_token credentials \<noteq> []
      then (case cred_refresh rm credentials of
              Inl e \<Rightarrow> None
            | Inr refreshed \<Rightarrow> Some refreshed)
      else Some credentials)"

definition upload_video :: "remote \<Rightarrow> string \<Rightarrow> video_data \<Rightarrow> 'c \<Rightarrow> exc + upload_result" where
  "upload_video rm path data credentials =
     (case videos_insert rm path data of
        Inl e \<Rightarrow> Inl (Exception ''Failed to upload video to YouTube'')
      | Inr None \<Rightarrow> Inl (Exception ''Failed to upload video to YouTube'')
      | Inr (Some i) \<Rightarrow>
          Inr \<lparr>res_video_id = i, res_video_url = ''https://www.youtube.com/watch?v='' @ i\<rparr>)"

definition delete_video :: "remote \<Rightarrow> string \<Rightarrow> 'c \<Rightarrow> bool" where
  "delete_video rm video_id credentials =
     (case videos_delete rm video_id of
        Inr u \<Rightarrow> True
      | Inl e \<Rightarrow> False)"

text \<open>
  Every one of these methods is declared \<open>async def\<close>, and the tasks, which are plain
  \<open>def\<close> functions, call them without \<open>await\<close>. In Python such a call does not run
  the body: it returns a coroutine object. \<open>Coroutine x\<close> is that object, \<open>x\<close>
  being what the body would return if it were awaited. A coroutine object is true in
  a truth test, and subscripting it raises \<open>TypeError\<close>.
\<close>

datatype 'a coroutine = Coroutine 'a

fun truthy_coroutine :: "'a coroutine \<Rightarrow> bool" where
  "truthy_coroutine (Coroutine x) = True"

fun getitem_coroutine :: "'a coroutine \<Rightarrow> string \<Rightarrow> exc + string" where
  "getitem_coroutine (Coroutine x) k = Inl (TypeError ''coroutine object is not subscriptable'')"

section \<open>Routes of \<open>app/routers/videos.py\<close>\<close>

text \<open>
  A route returns the exception it raises (\<open>Inl\<close>) or its answer, and the state it
  leaves. \<open>current_user\<close> is \<open>current_user.id\<close>. The outer handler of every route
  turns any exception that is not an \<open>HTTPException\<close> into status 500.
\<close>

text \<open>
  \<open>upload_video\<close> reads \<open>settings.allowed_video_types_list\<close> first, and the module
  never imports \<open>settings\<close>: the \<open>NameError\<close> becomes status 500 before anything is
  stored.
\<close>

definition upload_video_route :: "state \<Rightarrow> (exc + Video) \<times> state" where
  "upload_video_route s = (Inl (HTTPException 500 ''Failed to upload video''), s)"

definition apply_update :: "VideoUpdate \<Rightarrow> time \<Rightarrow> Video \<Rightarrow> Video" where
  "apply_update u now d =
     d\<lparr>title := (case upd_title u of None \<Rightarrow> title d | Some x \<Rightarrow> x),
       description := (case upd_description u of None \<Rightarrow> description d | Some x \<Rightarrow> Some x),
       tags := (case upd_tags u of None \<Rightarrow> tags d | Some x \<Rightarrow> x),
       privacy := (case upd_privacy u of None \<Rightarrow> privacy d | Some x \<Rightarrow> x),
       thumbnail_url := (case upd_thumbnail_url u of None \<Rightarrow> thumbnail_url d | Some x \<Rightarrow> Some x),
       updated_at := now\<rparr>"

definition update_video :: "time \<Rightarrow> oid \<Rightarrow> string \<Rightarrow> VideoUpdate \<Rightarrow> state \<Rightarrow> (exc + Video) \<times> state" where
  "update_video now current_user video_id video_update s =
     (case ObjectId video_id of
        Inl e \<Rightarrow> (Inl (HTTPException 500 ''Failed to update video''), s)
      | Inr vid \<Rightarrow>
          (case find_one (\<lambda>d. matches_id (BObjectId vid) (v_id d) \<and> v_user_id d = current_user) (videos s) of
             None \<Rightarrow> (Inl (HTTPException 404 ''Video not found''), s)
           | Some video_doc \<Rightarrow>
               (let s1 = s\<lparr>videos := update_one (\<lambda>d. matches_id (BObjectId vid) (v_id d)) (apply_update video_update now) (videos s)\<rparr>
                in (case find_one (\<lambda>d. matches_id (BObjectId vid) (v_id d)) (videos s1) of
                      None \<Rightarrow> (Inl (HTTPException 500 ''Failed to update video''), s1)
                    | Some updated \<Rightarrow> (Inr updated, s1)))))"

definition delete_video_route :: "oid \<Rightarrow> string \<Rightarrow> state \<Rightarrow> (exc + string) \<times> state" where
  "delete_video_route current_user video_id s =
     (case ObjectId video_id of
        Inl e \<Rightarrow> (Inl (HTTPException 500 ''Failed to delete video''), s)
      | Inr vid \<Rightarrow>
          (case find_one (\<lambda>d. matches_id (BObjectId vid) (v_id d) \<and> v_user_id d = current_user) (videos s) of
             None \<Rightarrow> (Inl (HTTPException 404 ''Video not found''), s)
           | Some video_doc \<Rightarrow>
               (Inr ''Video deleted successfully'',
                s\<lparr>videos := delete_one (\<lambda>d. matches_id (BObjectId vid) (v_id d)) (videos s)\<rparr>)))"

text \<open>
  \<open>schedule_upload\<close>: look the video up for the caller, set the schedule and the
  status, submit the upload task for \<open>scheduled_at\<close>, store the task's id. There is no
  test of the video's current status, of \<open>scheduled_at\<close> against the clock, or of an
  earlier \<open>upload_job_id\<close>.
\<close>

definition set_upload_schedule :: "time \<Rightarrow> oid \<Rightarrow> time \<Rightarrow> Video \<Rightarrow> Video" where
  "set_upload_schedule scheduled_at cid now d =
     d\<lparr>schedule := (schedule d)\<lparr>upload_scheduled_at := Some scheduled_at,
                                 schedule_youtube_channel_id := Some cid\<rparr>,
       status := SCHEDULED,
       updated_at := now\<rparr>"

definition set_upload_job_id :: "task_id \<Rightarrow> Video \<Rightarrow> Video" where
  "set_upload_job_id tid d = d\<lparr>schedule := (schedule d)\<lparr>upload_job_id := Some tid\<rparr>\<rparr>"

definition schedule_upload ::
  "time \<Rightarrow> oid \<Rightarrow> string \<Rightarrow> time \<Rightarrow> string \<Rightarrow> state \<Rightarrow> (exc + task_id) \<times> state" where
  "schedule_upload now current_user video_id scheduled_at channel s =
     (case ObjectId video_id of
        Inl e \<Rightarrow> (Inl (HTTPException 500 ''Failed to schedule upload''), s)
      | Inr vid \<Rightarrow>
          (case find_one (\<lambda>d. matches_id (BObjectId vid) (v_id d) \<and> v_user_id d = current_user) (videos s) of
             None \<Rightarrow> (Inl (HTTPException 404 ''Video not found''), s)
           | Some video_doc \<Rightarrow>
               (case ObjectId channel of
                  Inl e \<Rightarrow> (Inl (HTTPException 500 ''Failed to schedule upload''), s)
                | Inr cid \<Rightarrow>
                    (let s1 = s\<lparr>videos := update_one (\<lambda>d. matches_id (BObjectId vid) (v_id d))
                                   (set_upload_schedule scheduled_at cid now) (videos s)\<rparr>;
                         (tid, s2) = apply_async
                                       (UploadCall (str_oid (v_id video_doc)) (str_oid current_user)
                                          channel)
                                       (Some scheduled_at) s1;
                         s3 = s2\<lparr>videos := update_one (\<lambda>d. matches_id (BObjectId vid) (v_id d))
                                   (set_upload_job_id tid) (videos s2)\<rparr>
                     in (Inr tid, s3)))))"

text \<open>
  \<open>schedule_delete\<close>: status 400 when the schedule has no \<open>youtube_video_id\<close>;
  otherwise set \<open>delete_scheduled_at\<close>, submit the delete task and store its id.
  The channel handed to the task is \<open>schedule.youtube_channel_id\<close>, or \<open>''\<close>.
\<close>

definition set_delete_schedule :: "time \<Rightarrow> time \<Rightarrow> Video \<Rightarrow> Video" where
  "set_delete_schedule scheduled_at now d =
     d\<lparr>schedule := (schedule d)\<lparr>delete_scheduled_at := Some scheduled_at\<rparr>,
       updated_at := now\<rparr>"

definition set_delete_job_id :: "task_id \<Rightarrow> Video \<Rightarrow> Video" where
  "set_delete_job_id tid d = d\<lparr>schedule := (schedule d)\<lparr>delete_job_id := Some tid\<rparr>\<rparr>"

definition schedule_delete ::
  "time \<Rightarrow> oid \<Rightarrow> string \<Rightarrow> time \<Rightarrow> state \<Rightarrow> (exc + task_id) \<times> state" where
  "schedule_delete now current_user video_id scheduled_at s =
     (case ObjectId video_id of
        Inl e \<Rightarrow> (Inl (HTTPException 500 ''Failed to schedule deletion''), s)
      | Inr vid \<Rightarrow>
          (case find_one (\<lambda>d. matches_id (BObjectId vid) (v_id d) \<and> v_user_id d = current_user) (videos s) of
             None \<Rightarrow> (Inl (HTTPException 404 ''Video not found''), s)
           | Some video_doc \<Rightarrow>
               (case youtube_video_id (schedule video_doc) of
                  None \<Rightarrow> (Inl (HTTPException 400 ''Video not uploaded to YouTube yet''), s)
                | Some yt \<Rightarrow>
                    if yt = [] then (Inl (HTTPException 400 ''Video not uploaded to YouTube yet''), s)
                    else
                      (let s1 = s\<lparr>videos := update_one (\<lambda>d. matches_id (BObjectId vid) (v_id d))
                                     (set_delete_schedule scheduled_at now) (videos s)\<rparr>;
                           (tid, s2) = apply_async
                                         (DeleteCall (str_oid (v_id video_doc)) yt
                                            (str_oid current_user)
                                            (case schedule_youtube_channel_id (schedule video_doc) of
                                               None \<Rightarrow> [] | Some c \<Rightarrow> str_oid c))
                                         (Some scheduled_at) s1;
                           s3 = s2\<lparr>videos := update_one (\<lambda>d. matches_id (BObjectId vid) (v_id d))
                                     (set_delete_job_id tid) (videos s2)\<rparr>
                       in (Inr tid, s3)))))"

section \<open>Tasks of \<open>app/tasks/upload_tasks.py\<close>\<close>

text \<open>
  The tasks get their ids as strings (\<open>str(video_doc["_id"])\<close> and the like) and put
  these strings in their queries for \<open>_id\<close>.

  \<open>upload_video_to_youtube\<close>. The \<open>try\<close> block gives the exception it raises or the
  video id it publishes, with the state at that point; the \<open>except\<close> handler then
  writes the status \<open>failed\<close> and asks Celery to retry.
\<close>

definition set_status :: "VideoStatus \<Rightarrow> Video \<Rightarrow> Video" where
  "set_status st d = d\<lparr>status := st\<rparr>"

definition set_published :: "string \<Rightarrow> string \<Rightarrow> time \<Rightarrow> Video \<Rightarrow> Video" where
  "set_published yt url now d =
     d\<lparr>status := PUBLISHED,
       schedule := (schedule d)\<lparr>youtube_video_id := Some yt, youtube_url := Some url\<rparr>,
       updated_at := now\<rparr>"

definition upload_try ::
  "remote \<Rightarrow> time \<Rightarrow> string \<Rightarrow> string \<Rightarrow> string \<Rightarrow> state \<Rightarrow> (exc + string) \<times> state" where
  "upload_try rm now video_id user channel s =
     (case find_one (\<lambda>d. matches_id (BString video_id) (v_id d)) (videos s) of
        None \<Rightarrow> (Inl (Exception ''Video or channel not found''), s)
      | Some video_doc \<Rightarrow>
          (case find_one (\<lambda>c. matches_id (BString channel) (c_id c)) (youtube_channels s) of
             None \<Rightarrow> (Inl (Exception ''Video or channel not found''), s)
           | Some channel_doc \<Rightarrow>
               (let s1 = s\<lparr>videos := update_one (\<lambda>d. matches_id (BString video_id) (v_id d))
                              (set_status PROCESSING) (videos s)\<rparr>;
                    credentials = get_credentials_from_token
                                    (access_token channel_doc) (refresh_token channel_doc);
                    refreshed = Coroutine (refresh_credentials rm now credentials)
                in if \<not> truthy_coroutine refreshed
                   then (Inl (Exception ''Failed to refresh credentials''), s1)
                   else
                     (let data = \<lparr>vd_title = title video_doc,
                                  vd_description = (case description video_doc of
                                                      None \<Rightarrow> [] | Some x \<Rightarrow> x),
                                  vd_tags = tags video_doc,
                                  vd_privacy = privacy video_doc\<rparr>;
                          result = Coroutine (upload_video rm (file_path video_doc) data refreshed)
                      in (case getitem_coroutine result ''video_id'' of
                            Inl e \<Rightarrow> (Inl e, s1)
                          | Inr yt \<Rightarrow>
                              (case getitem_coroutine result ''video_url'' of
                                 Inl e \<Rightarrow> (Inl e, s1)
                               | Inr url \<Rightarrow>
                                   (Inr yt,
                                    s1\<lparr>videos := update_one (\<lambda>d. matches_id (BString video_id) (v_id d))
                                          (set_published yt url now) (videos s1)\<rparr>)))))))"

definition upload_video_to_youtube ::
  "remote \<Rightarrow> time \<Rightarrow> task \<Rightarrow> string \<Rightarrow> string \<Rightarrow> string \<Rightarrow> state \<Rightarrow> task_outcome \<times> state" where
  "upload_video_to_youtube rm now self video_id user channel s =
     (case upload_try rm now video_id user channel s of
        (Inr yt, s1) \<Rightarrow> (TaskSuccess, s1)
      | (Inl e, s1) \<Rightarrow>
          task_retry self now 60 3 e
            (s1\<lparr>videos := update_one (\<lambda>d. matches_id (BString video_id) (v_id d)) (set_status FAILED) (videos s1)\<rparr>))"

text \<open>
  \<open>delete_video_from_youtube\<close>. Its handler only retries; the video is written in
  the \<open>if success:\<close> branch alone.
\<close>

definition set_deleted :: "time \<Rightarrow> Video \<Rightarrow> Video" where
  "set_deleted now d =
     d\<lparr>status := DELETED,
       schedule := (schedule d)\<lparr>youtube_video_id := None, youtube_url := None\<rparr>,
       updated_at := now\<rparr>"

definition delete_try ::
  "remote \<Rightarrow> time \<Rightarrow> string \<Rightarrow> string \<Rightarrow> string \<Rightarrow> string \<Rightarrow> state \<Rightarrow> (exc + unit) \<times> state" where
  "delete_try rm now video_id yt user channel s =
     (case find_one (\<lambda>c. matches_id (BString channel) (c_id c)) (youtube_channels s) of
        None \<Rightarrow> (Inl (Exception ''Channel not found''), s)
      | Some channel_doc \<Rightarrow>
          (let credentials = get_credentials_from_token
                               (access_token channel_doc) (refresh_token channel_doc);
               refreshed = Coroutine (refresh_credentials rm now credentials)
           in if \<not> truthy_coroutine refreshed
              then (Inl (Exception ''Failed to refresh credentials''), s)
              else
                (let success = Coroutine (delete_video rm yt refreshed)
                 in if truthy_coroutine success
                    then (Inr (),
                          s\<lparr>videos := update_one (\<lambda>d. matches_id (BString video_id) (v_id d))
                                (set_deleted now) (videos s)\<rparr>)
                    else (Inl (Exception ''Failed to delete video from YouTube''), s))))"

definition delete_video_from_youtube ::
  "remote \<Rightarrow> time \<Rightarrow> task \<Rightarrow> string \<Rightarrow> string \<Rightarrow> string \<Rightarrow> string \<Rightarrow> state \<Rightarrow> task_outcome \<times> state" where
  "delete_video_from_youtube rm now self video_id yt user channel s =
     (case delete_try rm now video_id yt user channel s of
        (Inr u, s1) \<Rightarrow> (TaskSuccess, s1)
      | (Inl e, s1) \<Rightarrow> task_retry self now 60 3 e s1)"

text \<open>
  \<open>cleanup_expired_videos\<close>: the query, then the loop over its result, which submits
  a delete task for each video whose \<open>schedule.youtube_video_id\<close> is true.
\<close>

definition cleanup_query :: "time \<Rightarrow> Video \<Rightarrow> bool" where
  "cleanup_query current_time d =
     ((case delete_scheduled_at (schedule d) of None \<Rightarrow> False | Some t \<Rightarrow> t \<le> current_time)
      \<and> (status d = PUBLISHED \<or> status d = SCHEDULED))"

fun cleanup_loop :: "Video list \<Rightarrow> state \<Rightarrow> state" where
  "cleanup_loop [] s = s"
| "cleanup_loop (video # rest) s =
     (case youtube_video_id (schedule video) of
        None \<Rightarrow> cleanup_loop rest s
      | Some yt \<Rightarrow>
          if yt = [] then cleanup_loop rest s
          else cleanup_loop rest
                 (snd (delay (DeleteCall (str_oid (v_id video)) yt (str_oid (v_user_id video))
                                (case youtube_channel_id video of None \<Rightarrow> [] | Some c \<Rightarrow> c)) s)))"

definition cleanup_expired_videos :: "time \<Rightarrow> state \<Rightarrow> state" where
  "cleanup_expired_videos current_time s =
     cleanup_loop (find_all (cleanup_query current_time) (videos s)) s"

section \<open>The system's runs\<close>

text \<open>
  A worker takes a task off the queue, not before its \<open>eta\<close>, and calls the task's
  function with the stored arguments.
\<close>

definition run_task :: "remote \<Rightarrow> time \<Rightarrow> nat \<Rightarrow> state \<Rightarrow> state" where
  "run_task rm now i s =
     (if i < length (queue s) then
        (let self = queue s ! i;
             s1 = s\<lparr>queue := take i (queue s) @ drop (Suc i) (queue s)\<rparr>
         in if (case eta self of None \<Rightarrow> True | Some t \<Rightarrow> t \<le> now)
            then (case call self of
                    UploadCall video_id user channel \<Rightarrow>
                      snd (upload_video_to_youtube rm now self video_id user channel s1)
                  | DeleteCall video_id yt user channel \<Rightarrow>
                      snd (delete_video_from_youtube rm now self video_id yt user channel s1))
            else s)
      else s)"

datatype event =
  UploadVideo
  | UpdateVideo time oid string VideoUpdate
  | DeleteVideo oid string
  | ScheduleUpload time oid string time string
  | ScheduleDelete time oid string time
  | RunTask remote time nat
  | Cleanup time

fun step :: "event \<Rightarrow> state \<Rightarrow> state" where
  "step UploadVideo s = snd (upload_video_route s)"
| "step (UpdateVideo now u v upd) s = snd (update_video now u v upd s)"
| "step (DeleteVideo u v) s = snd (delete_video_route u v s)"
| "step (ScheduleUpload now u v at c) s = snd (schedule_upload now u v at c s)"
| "step (ScheduleDelete now u v at) s = snd (schedule_delete now u v at s)"
| "step (RunTask rm now i) s = run_task rm now i s"
| "step (Cleanup now) s = cleanup_expired_videos now s"

fun run :: "event list \<Rightarrow> state \<Rightarrow> state" where
  "run [] s = s"
| "run (e # es) s = run es (step e s)"

section \<open>Notions used in the statements\<close>

text \<open>
  The calls of the tasks that \<open>s'\<close> has queued behind those of \<open>s\<close>, and the calls
  that the loop of \<open>cleanup_expired_videos\<close> submits for a list of videos
  (\<open>cleanup_loop_queue\<close> below ties the latter to the loop).
\<close>

definition submitted :: "state \<Rightarrow> state \<Rightarrow> task_call list" where
  "submitted s s' = map call (drop (length (queue s)) (queue s'))"

fun cleanup_calls :: "Video list \<Rightarrow> task_call list" where
  "cleanup_calls [] = []"
| "cleanup_calls (video # rest) =
     (case youtube_video_id (schedule video) of
        None \<Rightarrow> cleanup_calls rest
      | Some yt \<Rightarrow>
          if yt = [] then cleanup_calls rest
          else DeleteCall (str_oid (v_id video)) yt (str_oid (v_user_id video))
                 (case youtube_channel_id video of None \<Rightarrow> [] | Some c \<Rightarrow> c) # cleanup_calls rest)"

section \<open>Concrete states\<close>

text \<open>The ids of a video, its user and a channel, as strings and as ObjectIds.\<close>

definition vidA_str :: string where
  "vidA_str = ''aaaaaaaaaaaaaaaaaaaaaaaa''"

definition userB_str :: string where
  "userB_str = ''bbbbbbbbbbbbbbbbbbbbbbbb''"

definition chanC_str :: string where
  "chanC_str = ''cccccccccccccccccccccccc''"

definition vidA :: oid where
  "vidA = Oid vidA_str"

definition userB :: oid where
  "userB = Oid userB_str"

definition chanC :: oid where
  "chanC = Oid chanC_str"

definition no_schedule :: VideoSchedule where
  "no_schedule =
     \<lparr>upload_scheduled_at = None, delete_scheduled_at = None, youtube_video_id = None,
      youtube_url = None, upload_job_id = None, delete_job_id = None,
      schedule_youtube_channel_id = None\<rparr>"

text \<open>A video as the upload route would store it: \<open>uploaded\<close>, no schedule.\<close>

definition video_uploaded :: Video where
  "video_uploaded =
     \<lparr>v_id = vidA, v_user_id = userB, title = ''clip'', description = None, tags = [],
      privacy = PRIVATE, thumbnail_url = None, file_path = ''/tmp/clip.mp4'',
      status = UPLOADED, schedule = no_schedule, youtube_channel_id = None, updated_at = 0\<rparr>"

text \<open>The same video after \<open>schedule_upload\<close> for time 10 on channel \<open>chanC\<close>.\<close>

definition video_scheduled :: Video where
  "video_scheduled =
     video_uploaded\<lparr>status := SCHEDULED,
       schedule := no_schedule\<lparr>upload_scheduled_at := Some 10, upload_job_id := Some 0,
                    schedule_youtube_channel_id := Some chanC\<rparr>\<rparr>"

text \<open>The same video published as \<open>yt123\<close>, its deletion due at time 50.\<close>

definition video_published :: Video where
  "video_published =
     video_uploaded\<lparr>status := PUBLISHED,
       schedule := no_schedule\<lparr>upload_scheduled_at := Some 10, delete_scheduled_at := Some 50,
                    youtube_video_id := Some ''yt123'',
                    youtube_url := Some ''https://www.youtube.com/watch?v=yt123'',
                    schedule_youtube_channel_id := Some chanC\<rparr>\<rparr>"

text \<open>Published and overdue, but with no \<open>schedule.youtube_video_id\<close>.\<close>

definition video_no_remote :: Video where
  "video_no_remote =
     video_uploaded\<lparr>status := PUBLISHED,
       schedule := no_schedule\<lparr>delete_scheduled_at := Some 50\<rparr>\<rparr>"

definition channel0 :: YouTubeChannel where
  "channel0 =
     \<lparr>c_id = chanC, c_user_id = userB, channel_id = ''UC1234567890'',
      access_token = ''old-access'', refresh_token = ''old-refresh'',
      token_expires_at = 0, is_active = True\<rparr>"

definition upload_task0 :: task where
  "upload_task0 =
     \<lparr>task_ident = 0, call = UploadCall vidA_str userB_str chanC_str, eta = Some 10, retries = 0\<rparr>"

definition state_uploaded :: state where
  "state_uploaded =
     \<lparr>videos = [video_uploaded], youtube_channels = [channel0], queue = [], next_task_id = 0\<rparr>"

definition state_scheduled :: state where
  "state_scheduled =
     \<lparr>videos = [video_scheduled], youtube_channels = [channel0], queue = [], next_task_id = 1\<rparr>"

text \<open>The scheduled video with its upload task still in the queue.\<close>

definition state_pending :: state where
  "state_pending = state_scheduled\<lparr>queue := [upload_task0]\<rparr>"

definition state_published :: state where
  "state_published =
     \<lparr>videos = [video_published], youtube_channels = [channel0], queue = [], next_task_id = 0\<rparr>"

definition state_no_remote :: state where
  "state_no_remote =
     \<lparr>videos = [video_no_remote], youtube_channels = [channel0], queue = [], next_task_id = 0\<rparr>"

text \<open>
  A platform that refuses the upload and answers the delete with status 404, and
  one that accepts the delete. Both answer a refresh with a new token pair.
\<close>

definition remote_refusing :: remote where
  "remote_refusing =
     \<lparr>clock_skew = 225,
      cred_refresh = (\<lambda>c. Inr \<lparr>token = ''new-access'', cred_refresh_token = ''new-refresh'',
                               expiry = Some 3600\<rparr>),
      videos_insert = (\<lambda>p d. Inl TransportError),
      videos_delete = (\<lambda>i. Inl (HttpError 404))\<rparr>"

definition remote_accepting :: remote where
  "remote_accepting = remote_refusing\<lparr>videos_delete := (\<lambda>i. Inr ())\<rparr>"

definition upload_task3 :: task where
  "upload_task3 = upload_task0\<lparr>eta := Some 190, retries := 3\<rparr>"

definition delete_task0 :: task where
  "delete_task0 =
     \<lparr>task_ident = 0, call = DeleteCall vidA_str ''yt123'' userB_str chanC_str, eta = Some 50, retries = 0\<rparr>"

section \<open>Lemmas on collections\<close>

lemma find_one_Some: "find_one q docs = Some d \<Longrightarrow> q d \<and> d \<in> set docs"
  by (auto simp: find_one_def find_Some_iff)

lemma matches_id_oid [simp]: "matches_id (BObjectId a) i = (i = a)"
  by (auto simp: matches_id_def)

lemma matches_id_str [simp]: "matches_id (BString x) i = False"
  by (simp add: matches_id_def)

lemma find_one_never [simp]: "find_one (\<lambda>d. False) docs = None"
  by (induction docs) (simp_all add: find_one_def)

lemma update_one_never [simp]: "update_one (\<lambda>d. False) f docs = docs"
  by (induction docs) simp_all

lemma str_oid_inj: "str_oid a = str_oid b \<Longrightarrow> a = b"
  by (cases a, cases b) simp

lemma str_oid_vidA [simp]: "str_oid vidA = vidA_str"
  by (simp add: vidA_def)

lemma str_oid_userB [simp]: "str_oid userB = userB_str"
  by (simp add: userB_def)

lemma str_oid_chanC [simp]: "str_oid chanC = chanC_str"
  by (simp add: chanC_def)

lemma ObjectId_vidA: "ObjectId vidA_str = Inr vidA"
  by (simp add: ObjectId_def vidA_def vidA_str_def hex_lower_def)

lemma ObjectId_chanC: "ObjectId chanC_str = Inr chanC"
  by (simp add: ObjectId_def chanC_def chanC_str_def hex_lower_def)

lemma find_one_None_update: "find_one q docs = None \<Longrightarrow> update_one q f docs = docs"
  by (induction docs) (auto simp: find_one_def split: if_splits)

lemma find_one_update:
  "find_one q docs = Some d \<Longrightarrow> q (f d) \<Longrightarrow> find_one q (update_one q f docs) = Some (f d)"
  by (induction docs) (auto simp: find_one_def split: if_splits)

lemma find_one_conj:
  "find_one q docs = Some d \<Longrightarrow> r d \<Longrightarrow> find_one (\<lambda>x. q x \<and> r x) docs = Some d"
  by (induction docs) (auto simp: find_one_def split: if_splits)

lemma set_update_one:
  "x \<in> set (update_one q f docs) \<Longrightarrow> x \<in> set docs \<or> (\<exists>d \<in> set docs. x = f d)"
  by (induction docs) (auto split: if_splits)

lemma set_delete_one: "x \<in> set (delete_one q docs) \<Longrightarrow> x \<in> set docs"
  by (induction docs) (auto split: if_splits)

lemma update_one_twice:
  "(\<And>d. q d \<Longrightarrow> q (g d)) \<Longrightarrow> update_one q f (update_one q g docs) = update_one q (f \<circ> g) docs"
  by (induction docs) auto

lemma v_id_set_upload_schedule: "v_id (set_upload_schedule a c n d) = v_id d"
  by (simp add: set_upload_schedule_def)

lemma v_id_set_delete_schedule: "v_id (set_delete_schedule a n d) = v_id d"
  by (simp add: set_delete_schedule_def)

section \<open>Scheduling a delete before any publish\<close>

text \<open>
  C6. For a video that the route finds for the caller and whose schedule has no
  remote video id (\<open>None\<close>, or the empty string, which Python's test also refuses),
  \<open>schedule_delete\<close> raises the HTTP 400 error "Video not uploaded to YouTube yet"
  (the route's InvalidState) and leaves the whole state, queue included, as it was.
\<close>

theorem schedule_delete_unpublished:
  assumes "ObjectId video_id = Inr vid"
    and "find_one (\<lambda>d. v_id d = vid \<and> v_user_id d = current_user) (videos s) = Some video_doc"
    and "\<not> truthy (youtube_video_id (schedule video_doc))"
  shows "schedule_delete now current_user video_id scheduled_at s =
           (Inl (HTTPException 400 ''Video not uploaded to YouTube yet''), s)"
  using assms by (simp add: schedule_delete_def truthy_def split: option.splits)

theorem schedule_delete_unpublished_witness:
  "ObjectId vidA_str = Inr vidA
   \<and> find_one (\<lambda>d. v_id d = vidA \<and> v_user_id d = userB) (videos state_uploaded) = Some video_uploaded
   \<and> \<not> truthy (youtube_video_id (schedule video_uploaded))
   \<and> schedule_delete 100 userB vidA_str 200 state_uploaded =
       (Inl (HTTPException 400 ''Video not uploaded to YouTube yet''), state_uploaded)"
proof -
  have f: "find_one (\<lambda>d. v_id d = vidA \<and> v_user_id d = userB) (videos state_uploaded)
             = Some video_uploaded"
    by (simp add: find_one_def state_uploaded_def video_uploaded_def)
  have y: "\<not> truthy (youtube_video_id (schedule video_uploaded))"
    by (simp add: video_uploaded_def no_schedule_def truthy_def)
  show ?thesis
    using schedule_delete_unpublished [OF ObjectId_vidA f y] ObjectId_vidA f y by simp
qed

section \<open>What the tasks do\<close>

text \<open>
  A task's query for \<open>_id\<close> carries a string, and no document's \<open>_id\<close> is one. So
  the \<open>try\<close> block of either task raises at its first test, before any write and
  before any call of the service, and the handler's write matches no document:
  an execution of a task is a request to retry, and nothing else.
\<close>

lemma upload_try_raises:
  "upload_try rm now video_id user channel s = (Inl (Exception ''Video or channel not found''), s)"
  by (simp add: upload_try_def)

lemma upload_task_retries:
  "upload_video_to_youtube rm now self video_id user channel s
     = task_retry self now 60 3 (Exception ''Video or channel not found'') s"
  by (simp add: upload_video_to_youtube_def upload_try_raises)

lemma delete_try_raises:
  "delete_try rm now video_id yt user channel s = (Inl (Exception ''Channel not found''), s)"
  by (simp add: delete_try_def)

lemma delete_task_retries:
  "delete_video_from_youtube rm now self video_id yt user channel s
     = task_retry self now 60 3 (Exception ''Channel not found'') s"
  by (simp add: delete_video_from_youtube_def delete_try_raises)

lemma task_retry_videos: "videos (snd (task_retry self now cd m e s)) = videos s"
  by (simp add: task_retry_def)

lemma task_retry_channels: "youtube_channels (snd (task_retry self now cd m e s)) = youtube_channels s"
  by (simp add: task_retry_def)

lemma run_task_videos: "videos (run_task rm now i s) = videos s"
  by (simp add: run_task_def Let_def upload_task_retries delete_task_retries task_retry_videos
      split: task_call.splits)

lemma run_task_channels: "youtube_channels (run_task rm now i s) = youtube_channels s"
  by (simp add: run_task_def Let_def upload_task_retries delete_task_retries task_retry_channels
      split: task_call.splits)

section \<open>The delete task\<close>

text \<open>
  C1, against the claim: a published video, its delete scheduled through the route
  and the task run when due, on a platform that answers the delete with 404. The
  adapter's \<open>delete_video\<close> gives \<open>False\<close> for that answer; the video is \<open>published\<close>
  still, with its remote id, and the task is queued for a retry.
\<close>

theorem delete_not_found_counterexample:
  "videos_delete remote_refusing ''yt123'' = Inl (HttpError 404)
   \<and> delete_video remote_refusing ''yt123'' (get_credentials_from_token ''old-access'' ''old-refresh'')
       = False
   \<and> map status
        (videos (run [ScheduleDelete 40 userB vidA_str 50, RunTask remote_refusing 50 0]
                   state_published)) = [PUBLISHED]
   \<and> map (youtube_video_id \<circ> schedule)
        (videos (run [ScheduleDelete 40 userB vidA_str 50, RunTask remote_refusing 50 0]
                   state_published)) = [Some ''yt123'']
   \<and> queue (run [ScheduleDelete 40 userB vidA_str 50, RunTask remote_refusing 50 0]
               state_published)
       = [\<lparr>task_ident = 0, call = DeleteCall vidA_str ''yt123'' userB_str chanC_str,
           eta = Some 110, retries = 1\<rparr>]"
  by (simp add: remote_refusing_def delete_video_def schedule_delete_def ObjectId_vidA find_one_def
      state_published_def video_published_def video_uploaded_def apply_async_def
      set_delete_schedule_def set_delete_job_id_def run_task_def delete_task_retries
      task_retry_def vidA_def userB_def chanC_def)

text \<open>
  C1, as amended. On a platform that answers the delete with 404, \<open>delete_video\<close>
  gives \<open>False\<close>, as it does for every other error; and an execution of the delete
  task does not end in success: it leaves every video as it was, \<open>deleted\<close> is not
  written, and while fewer than 3 retries are counted the task is queued again.
\<close>

theorem delete_not_found_is_failure:
  assumes "videos_delete rm yt = Inl (HttpError 404)"
  shows "delete_video rm yt credentials = False
       \<and> fst (delete_video_from_youtube rm now self video_id yt user channel s) \<noteq> TaskSuccess
       \<and> videos (snd (delete_video_from_youtube rm now self video_id yt user channel s)) = videos s
       \<and> (retries self < 3 \<longrightarrow>
            fst (delete_video_from_youtube rm now self video_id yt user channel s) = TaskRetry
            \<and> queue (snd (delete_video_from_youtube rm now self video_id yt user channel s))
                = queue s @ [self\<lparr>retries := retries self + 1, eta := Some (now + 60)\<rparr>])"
proof -
  have a: "delete_video rm yt credentials = False"
    using assms by (simp add: delete_video_def)
  have t: "delete_video_from_youtube rm now self video_id yt user channel s
             = task_retry self now 60 3 (Exception ''Channel not found'') s"
    by (rule delete_task_retries)
  show ?thesis
    using a by (simp add: t task_retry_def)
qed

theorem delete_not_found_is_failure_witness:
  "videos_delete remote_refusing ''yt123'' = Inl (HttpError 404)
   \<and> retries delete_task0 < 3
   \<and> delete_video remote_refusing ''yt123'' (get_credentials_from_token ''old-access'' ''old-refresh'')
       = False
   \<and> fst (delete_video_from_youtube remote_refusing 50 delete_task0 vidA_str ''yt123'' userB_str
            chanC_str state_published) = TaskRetry
   \<and> videos (snd (delete_video_from_youtube remote_refusing 50 delete_task0 vidA_str ''yt123''
                     userB_str chanC_str state_published)) = [video_published]"
proof -
  have a: "videos_delete remote_refusing ''yt123'' = Inl (HttpError 404)"
    by (simp add: remote_refusing_def)
  have r: "retries delete_task0 < 3"
    by (simp add: delete_task0_def)
  have v: "videos state_published = [video_published]"
    by (simp add: state_published_def)
  from delete_not_found_is_failure [OF a,
      where credentials = "get_credentials_from_token ''old-access'' ''old-refresh''"
      and now = 50 and self = delete_task0 and video_id = vidA_str and user = userB_str
      and channel = chanC_str and s = state_published] a r v
  show ?thesis
    by simp
qed

text \<open>
  C5, at a failing input: the same published video, its delete scheduled through the
  route and the task run when due, on a platform that accepts the delete
  (\<open>delete_video\<close>, awaited, would give \<open>True\<close>). The task raises "Channel not found",
  for its query carries the channel's id as a string, and is queued for a retry;
  the video is \<open>published\<close> still and keeps \<open>youtube_video_id\<close> and \<open>youtube_url\<close>.
\<close>

theorem delete_accepted_not_marked:
  "videos_delete remote_accepting ''yt123'' = Inr ()
   \<and> delete_video remote_accepting ''yt123'' (get_credentials_from_token ''old-access'' ''old-refresh'')
       = True
   \<and> find_one (\<lambda>c. c_id c = chanC) (youtube_channels state_published) = Some channel0
   \<and> find_one (\<lambda>c. matches_id (BString chanC_str) (c_id c)) (youtube_channels state_published)
       = None
   \<and> map status
        (videos (run [ScheduleDelete 40 userB vidA_str 50, RunTask remote_accepting 50 0]
                   state_published)) = [PUBLISHED]
   \<and> map (youtube_video_id \<circ> schedule)
        (videos (run [ScheduleDelete 40 userB vidA_str 50, RunTask remote_accepting 50 0]
                   state_published)) = [Some ''yt123'']
   \<and> map (youtube_url \<circ> schedule)
        (videos (run [ScheduleDelete 40 userB vidA_str 50, RunTask remote_accepting 50 0]
                   state_published)) = [Some ''https://www.youtube.com/watch?v=yt123'']
   \<and> map retries
        (queue (run [ScheduleDelete 40 userB vidA_str 50, RunTask remote_accepting 50 0]
                  state_published)) = [1]"
  by (simp add: remote_accepting_def remote_refusing_def delete_video_def schedule_delete_def
      ObjectId_vidA find_one_def state_published_def channel0_def video_published_def
      video_uploaded_def apply_async_def set_delete_schedule_def set_delete_job_id_def
      run_task_def delete_task_retries task_retry_def)

section \<open>The upload task\<close>

text \<open>
  C2, against the claim: an uploaded video, its upload scheduled through the route,
  and the task run each time it is due. After three failed attempts the task is in
  the queue for a fourth; after the fourth the queue is empty, the budget is
  exhausted, and the video's status is \<open>scheduled\<close>, not \<open>failed\<close>.
\<close>

theorem upload_budget_counterexample:
  "queue (run [ScheduleUpload 0 userB vidA_str 10 chanC_str, RunTask remote_refusing 10 0,
               RunTask remote_refusing 70 0, RunTask remote_refusing 130 0] state_uploaded)
     = [\<lparr>task_ident = 0, call = UploadCall vidA_str userB_str chanC_str, eta = Some 190,
         retries = 3\<rparr>]
   \<and> queue (run [ScheduleUpload 0 userB vidA_str 10 chanC_str, RunTask remote_refusing 10 0,
                  RunTask remote_refusing 70 0, RunTask remote_refusing 130 0,
                  RunTask remote_refusing 190 0] state_uploaded) = []
   \<and> map status
        (videos (run [ScheduleUpload 0 userB vidA_str 10 chanC_str, RunTask remote_refusing 10 0,
                      RunTask remote_refusing 70 0, RunTask remote_refusing 130 0,
                      RunTask remote_refusing 190 0] state_uploaded)) = [SCHEDULED]"
  by (simp add: schedule_upload_def ObjectId_vidA ObjectId_chanC find_one_def state_uploaded_def
      video_uploaded_def apply_async_def set_upload_schedule_def set_upload_job_id_def
      run_task_def upload_task_retries task_retry_def)

text \<open>
  C2, as amended. An attempt of an upload task made while fewer than 3 retries are
  counted ends in a retry, the same task being queued again 60 seconds on with one
  more retry counted; the attempt made with 3 retries counted, the fourth, ends in
  failure and queues nothing. (No attempt ends in success.)
\<close>

theorem upload_attempt_retries:
  "(retries self < 3 \<longrightarrow>
      fst (upload_video_to_youtube rm now self video_id user channel s) = TaskRetry
      \<and> queue (snd (upload_video_to_youtube rm now self video_id user channel s))
          = queue s @ [self\<lparr>retries := retries self + 1, eta := Some (now + 60)\<rparr>])
   \<and> (3 \<le> retries self \<longrightarrow>
        (\<exists>e. fst (upload_video_to_youtube rm now self video_id user channel s) = TaskFailure e)
        \<and> queue (snd (upload_video_to_youtube rm now self video_id user channel s)) = queue s)"
proof -
  have t: "upload_video_to_youtube rm now self video_id user channel s
             = task_retry self now 60 3 (Exception ''Video or channel not found'') s"
    by (rule upload_task_retries)
  show ?thesis
  proof (cases "retries self < 3")
    case True
    then show ?thesis by (simp add: t task_retry_def)
  next
    case False
    then show ?thesis by (simp add: t task_retry_def)
  qed
qed

theorem upload_attempt_retries_witness:
  "retries upload_task0 < 3
   \<and> fst (upload_video_to_youtube remote_refusing 10 upload_task0 vidA_str userB_str chanC_str
            state_scheduled) = TaskRetry
   \<and> queue (snd (upload_video_to_youtube remote_refusing 10 upload_task0 vidA_str userB_str
                    chanC_str state_scheduled))
       = [upload_task0\<lparr>retries := 1, eta := Some 70\<rparr>]
   \<and> 3 \<le> retries upload_task3
   \<and> queue (snd (upload_video_to_youtube remote_refusing 190 upload_task3 vidA_str userB_str
                    chanC_str state_scheduled)) = []"
proof -
  have r0: "retries upload_task0 < 3"
    by (simp add: upload_task0_def)
  have r3: "3 \<le> retries upload_task3"
    by (simp add: upload_task3_def)
  have z: "retries upload_task0 = 0"
    by (simp add: upload_task0_def)
  have q: "queue state_scheduled = []"
    by (simp add: state_scheduled_def)
  from upload_attempt_retries [where self = upload_task0 and rm = remote_refusing and now = 10
      and video_id = vidA_str and user = userB_str and channel = chanC_str and s = state_scheduled]
    upload_attempt_retries [where self = upload_task3 and rm = remote_refusing and now = 190
      and video_id = vidA_str and user = userB_str and channel = chanC_str and s = state_scheduled]
    r0 r3 q z
  show ?thesis
    by simp
qed

section \<open>Scheduling again\<close>

text \<open>What the two scheduling routes do for a video they find.\<close>

lemma schedule_upload_found:
  assumes "ObjectId video_id = Inr vid" and "ObjectId channel = Inr cid"
    and "find_one (\<lambda>d. v_id d = vid) (videos s) = Some d" and "v_user_id d = current_user"
  shows "schedule_upload now current_user video_id scheduled_at channel s =
     (Inr (next_task_id s),
      s\<lparr>videos := update_one (\<lambda>d. v_id d = vid)
                     (set_upload_job_id (next_task_id s) \<circ> set_upload_schedule scheduled_at cid now)
                     (videos s),
        queue := queue s @ [\<lparr>task_ident = next_task_id s, call = UploadCall (str_oid vid) (str_oid current_user) channel,
                              eta = Some scheduled_at, retries = 0\<rparr>],
        next_task_id := Suc (next_task_id s)\<rparr>)"
proof -
  have f: "find_one (\<lambda>d. v_id d = vid \<and> v_user_id d = current_user) (videos s) = Some d"
    using find_one_conj [OF assms(3), of "\<lambda>d. v_user_id d = current_user"] assms(4) by simp
  have i: "v_id d = vid"
    using find_one_Some [OF assms(3)] by simp
  show ?thesis
    using assms(1,2) f i
    by (simp add: schedule_upload_def apply_async_def Let_def update_one_twice
        v_id_set_upload_schedule)
qed

lemma schedule_delete_found:
  assumes "ObjectId video_id = Inr vid"
    and "find_one (\<lambda>d. v_id d = vid) (videos s) = Some d" and "v_user_id d = current_user"
    and "youtube_video_id (schedule d) = Some yt" and "yt \<noteq> []"
  shows "schedule_delete now current_user video_id scheduled_at s =
     (Inr (next_task_id s),
      s\<lparr>videos := update_one (\<lambda>d. v_id d = vid)
                     (set_delete_job_id (next_task_id s) \<circ> set_delete_schedule scheduled_at now)
                     (videos s),
        queue := queue s @ [\<lparr>task_ident = next_task_id s,
                              call = DeleteCall (str_oid vid) yt (str_oid current_user)
                                       (case schedule_youtube_channel_id (schedule d) of
                                          None \<Rightarrow> [] | Some c \<Rightarrow> str_oid c),
                              eta = Some scheduled_at, retries = 0\<rparr>],
        next_task_id := Suc (next_task_id s)\<rparr>)"
proof -
  have f: "find_one (\<lambda>d. v_id d = vid \<and> v_user_id d = current_user) (videos s) = Some d"
    using find_one_conj [OF assms(2), of "\<lambda>d. v_user_id d = current_user"] assms(3) by simp
  have i: "v_id d = vid"
    using find_one_Some [OF assms(2)] by simp
  show ?thesis
    using assms(1,4,5) f i
    by (simp add: schedule_delete_def apply_async_def Let_def update_one_twice
        v_id_set_delete_schedule)
qed

text \<open>
  C3, against the claim: the scheduled video has its upload task pending; scheduling
  the upload again leaves that task in the queue and adds a second one for the same
  video and action.
\<close>

theorem reschedule_counterexample:
  "queue state_pending = [upload_task0]
   \<and> call upload_task0 = UploadCall vidA_str userB_str chanC_str
   \<and> queue (snd (schedule_upload 100 userB vidA_str 200 chanC_str state_pending))
       = [upload_task0,
          \<lparr>task_ident = 1, call = UploadCall vidA_str userB_str chanC_str, eta = Some 200, retries = 0\<rparr>]"
  by (simp add: schedule_upload_def ObjectId_vidA ObjectId_chanC find_one_def state_pending_def
      state_scheduled_def video_scheduled_def video_uploaded_def apply_async_def upload_task0_def)

text \<open>
  C3, as amended. Scheduling an upload or a delete for a video the route finds
  appends the new task to the queue, so that every task that was pending is pending
  still, and stores the new task's id in the video's \<open>upload_job_id\<close> or
  \<open>delete_job_id\<close>, over the one that was there.
\<close>

theorem reschedule_keeps_prior_task:
  assumes "ObjectId video_id = Inr vid"
    and "find_one (\<lambda>d. v_id d = vid) (videos s) = Some d" and "v_user_id d = current_user"
  shows "(ObjectId channel = Inr cid \<longrightarrow>
            queue (snd (schedule_upload now current_user video_id scheduled_at channel s))
              = queue s @ [\<lparr>task_ident = next_task_id s, call = UploadCall (str_oid vid) (str_oid current_user) channel,
                             eta = Some scheduled_at, retries = 0\<rparr>]
            \<and> (\<exists>d'. find_one (\<lambda>d. v_id d = vid)
                      (videos (snd (schedule_upload now current_user video_id scheduled_at channel s)))
                      = Some d'
                   \<and> upload_job_id (schedule d') = Some (next_task_id s)))
       \<and> (youtube_video_id (schedule d) = Some yt \<and> yt \<noteq> [] \<longrightarrow>
            queue (snd (schedule_delete now current_user video_id scheduled_at s))
              = queue s @ [\<lparr>task_ident = next_task_id s,
                             call = DeleteCall (str_oid vid) yt (str_oid current_user)
                                      (case schedule_youtube_channel_id (schedule d) of
                                         None \<Rightarrow> [] | Some c \<Rightarrow> str_oid c),
                             eta = Some scheduled_at, retries = 0\<rparr>]
            \<and> (\<exists>d'. find_one (\<lambda>d. v_id d = vid)
                      (videos (snd (schedule_delete now current_user video_id scheduled_at s)))
                      = Some d'
                   \<and> delete_job_id (schedule d') = Some (next_task_id s)))"
proof -
  have i: "v_id d = vid"
    using find_one_Some [OF assms(2)] by simp
  have u: "find_one (\<lambda>d. v_id d = vid)
             (update_one (\<lambda>d. v_id d = vid)
                (set_upload_job_id (next_task_id s) \<circ> set_upload_schedule scheduled_at cid now)
                (videos s))
           = Some ((set_upload_job_id (next_task_id s) \<circ> set_upload_schedule scheduled_at cid now) d)"
    using find_one_update [OF assms(2)] i
    by (simp add: set_upload_job_id_def set_upload_schedule_def)
  have w: "find_one (\<lambda>d. v_id d = vid)
             (update_one (\<lambda>d. v_id d = vid)
                (set_delete_job_id (next_task_id s) \<circ> set_delete_schedule scheduled_at now)
                (videos s))
           = Some ((set_delete_job_id (next_task_id s) \<circ> set_delete_schedule scheduled_at now) d)"
    using find_one_update [OF assms(2)] i
    by (simp add: set_delete_job_id_def set_delete_schedule_def)
  show ?thesis
  proof (intro conjI impI)
    assume c: "ObjectId channel = Inr cid"
    show "queue (snd (schedule_upload now current_user video_id scheduled_at channel s))
              = queue s @ [\<lparr>task_ident = next_task_id s, call = UploadCall (str_oid vid) (str_oid current_user) channel,
                             eta = Some scheduled_at, retries = 0\<rparr>]"
      by (simp add: schedule_upload_found [OF assms(1) c assms(2,3)])
    show "\<exists>d'. find_one (\<lambda>d. v_id d = vid)
                      (videos (snd (schedule_upload now current_user video_id scheduled_at channel s)))
                      = Some d'
                   \<and> upload_job_id (schedule d') = Some (next_task_id s)"
      using u by (simp add: schedule_upload_found [OF assms(1) c assms(2,3)] set_upload_job_id_def)
  next
    assume y: "youtube_video_id (schedule d) = Some yt \<and> yt \<noteq> []"
    then have y1: "youtube_video_id (schedule d) = Some yt" and y2: "yt \<noteq> []"
      by simp_all
    show "queue (snd (schedule_delete now current_user video_id scheduled_at s))
              = queue s @ [\<lparr>task_ident = next_task_id s,
                             call = DeleteCall (str_oid vid) yt (str_oid current_user)
                                      (case schedule_youtube_channel_id (schedule d) of
                                         None \<Rightarrow> [] | Some c \<Rightarrow> str_oid c),
                             eta = Some scheduled_at, retries = 0\<rparr>]"
      by (simp add: schedule_delete_found [OF assms(1,2,3) y1 y2])
    show "\<exists>d'. find_one (\<lambda>d. v_id d = vid)
                      (videos (snd (schedule_delete now current_user video_id scheduled_at s)))
                      = Some d'
                   \<and> delete_job_id (schedule d') = Some (next_task_id s)"
      using w by (simp add: schedule_delete_found [OF assms(1,2,3) y1 y2] set_delete_job_id_def)
  qed
qed

theorem reschedule_keeps_prior_task_witness:
  "ObjectId vidA_str = Inr vidA \<and> ObjectId chanC_str = Inr chanC
   \<and> find_one (\<lambda>d. v_id d = vidA) (videos state_pending) = Some video_scheduled
   \<and> v_user_id video_scheduled = userB
   \<and> queue (snd (schedule_upload 100 userB vidA_str 200 chanC_str state_pending))
       = queue state_pending
         @ [\<lparr>task_ident = next_task_id state_pending, call = UploadCall vidA_str userB_str chanC_str,
              eta = Some 200, retries = 0\<rparr>]
   \<and> find_one (\<lambda>d. v_id d = vidA) (videos state_published) = Some video_published
   \<and> v_user_id video_published = userB
   \<and> youtube_video_id (schedule video_published) = Some ''yt123'' \<and> ''yt123'' \<noteq> []
   \<and> queue (snd (schedule_delete 100 userB vidA_str 200 state_published))
       = queue state_published
         @ [\<lparr>task_ident = next_task_id state_published,
              call = DeleteCall vidA_str ''yt123'' userB_str
                       (case schedule_youtube_channel_id (schedule video_published) of
                          None \<Rightarrow> [] | Some c \<Rightarrow> str_oid c),
              eta = Some 200, retries = 0\<rparr>]"
proof -
  have f: "find_one (\<lambda>d. v_id d = vidA) (videos state_pending) = Some video_scheduled"
    by (simp add: find_one_def state_pending_def state_scheduled_def video_scheduled_def
        video_uploaded_def)
  have u: "v_user_id video_scheduled = userB"
    by (simp add: video_scheduled_def video_uploaded_def)
  have g: "find_one (\<lambda>d. v_id d = vidA) (videos state_published) = Some video_published"
    by (simp add: find_one_def state_published_def video_published_def video_uploaded_def)
  have w: "v_user_id video_published = userB"
    by (simp add: video_published_def video_uploaded_def)
  have y: "youtube_video_id (schedule video_published) = Some ''yt123'' \<and> ''yt123'' \<noteq> []"
    by (simp add: video_published_def)
  from reschedule_keeps_prior_task [OF ObjectId_vidA f u, where channel = chanC_str and cid = chanC
      and now = 100 and scheduled_at = 200] ObjectId_chanC
  have a: "queue (snd (schedule_upload 100 userB vidA_str 200 chanC_str state_pending))
       = queue state_pending
         @ [\<lparr>task_ident = next_task_id state_pending, call = UploadCall vidA_str userB_str chanC_str,
              eta = Some 200, retries = 0\<rparr>]"
    by simp
  from reschedule_keeps_prior_task [OF ObjectId_vidA g w, where yt = "''yt123''"
      and now = 100 and scheduled_at = 200] y
  have b: "queue (snd (schedule_delete 100 userB vidA_str 200 state_published))
       = queue state_published
         @ [\<lparr>task_ident = next_task_id state_published,
              call = DeleteCall vidA_str ''yt123'' userB_str
                       (case schedule_youtube_channel_id (schedule video_published) of
                          None \<Rightarrow> [] | Some c \<Rightarrow> str_oid c),
              eta = Some 200, retries = 0\<rparr>]"
    by simp
  from a b f u g w y ObjectId_vidA ObjectId_chanC show ?thesis
    by blast
qed

section \<open>The cleanup sweep\<close>

text \<open>The sweep writes no document; what it queues is \<open>cleanup_calls\<close> of what it finds.\<close>

lemma cleanup_loop_videos:
  "videos (cleanup_loop vs s) = videos s \<and> youtube_channels (cleanup_loop vs s) = youtube_channels s"
  by (induction vs arbitrary: s) (auto simp: delay_def apply_async_def split: option.splits)

lemma cleanup_loop_queue:
  "\<exists>ts. queue (cleanup_loop vs s) = queue s @ ts \<and> map call ts = cleanup_calls vs"
proof (induction vs arbitrary: s)
  case Nil
  then show ?case by simp
next
  case (Cons v vs)
  show ?case
  proof (cases "youtube_video_id (schedule v)")
    case None
    then show ?thesis using Cons [of s] by simp
  next
    case (Some yt)
    show ?thesis
    proof (cases "yt = []")
      case True
      then show ?thesis using Some Cons [of s] by simp
    next
      case False
      let ?c = "DeleteCall (str_oid (v_id v)) yt (str_oid (v_user_id v))
                  (case youtube_channel_id v of None \<Rightarrow> [] | Some c \<Rightarrow> c)"
      obtain ts where t: "queue (cleanup_loop vs (snd (delay ?c s))) = queue (snd (delay ?c s)) @ ts"
        and m: "map call ts = cleanup_calls vs"
        using Cons [of "snd (delay ?c s)"] by blast
      have "queue (cleanup_loop (v # vs) s)
              = queue s @ (\<lparr>task_ident = next_task_id s, call = ?c, eta = None, retries = 0\<rparr> # ts)"
        using Some False t by (simp add: delay_def apply_async_def)
      moreover have "map call (\<lparr>task_ident = next_task_id s, call = ?c, eta = None, retries = 0\<rparr> # ts)
              = cleanup_calls (v # vs)"
        using Some False m by simp
      ultimately show ?thesis by blast
    qed
  qed
qed

lemma submitted_cleanup:
  "submitted s (cleanup_expired_videos now s) = cleanup_calls (find_all (cleanup_query now) (videos s))"
proof -
  obtain ts where "queue (cleanup_loop (find_all (cleanup_query now) (videos s)) s) = queue s @ ts"
    and "map call ts = cleanup_calls (find_all (cleanup_query now) (videos s))"
    using cleanup_loop_queue by blast
  then show ?thesis
    by (simp add: submitted_def cleanup_expired_videos_def)
qed

text \<open>A video that the query matches at one time it matches at every later time.\<close>

lemma cleanup_query_later: "cleanup_query t1 d \<Longrightarrow> t1 \<le> t2 \<Longrightarrow> cleanup_query t2 d"
  by (auto simp: cleanup_query_def split: option.splits)

lemma cleanup_calls_later:
  "t1 \<le> t2 \<Longrightarrow>
     subseq (cleanup_calls (filter (cleanup_query t1) vs))
            (cleanup_calls (filter (cleanup_query t2) vs))"
proof (induction vs)
  case Nil
  then show ?case by simp
next
  case (Cons v vs)
  show ?case
  proof (cases "cleanup_query t1 v")
    case True
    then have "cleanup_query t2 v"
      using Cons.prems cleanup_query_later by blast
    then show ?thesis
      using True Cons by (auto split: option.splits)
  next
    case False
    then show ?thesis
      using Cons by (auto split: option.splits)
  qed
qed

text \<open>
  C4, against the claim: two sweeps in a row, a minute apart, over one overdue
  published video, with nothing in between, queue two delete tasks for it.
\<close>

theorem cleanup_twice_counterexample:
  "videos state_published = [video_published]
   \<and> map call (queue (cleanup_expired_videos 160 (cleanup_expired_videos 100 state_published)))
       = [DeleteCall vidA_str ''yt123'' userB_str [], DeleteCall vidA_str ''yt123'' userB_str []]"
  by (simp add: cleanup_expired_videos_def find_all_def cleanup_query_def state_published_def
      video_published_def video_uploaded_def no_schedule_def delay_def apply_async_def)

text \<open>
  C4, as amended. A sweep leaves the video collection as it was; and a second
  sweep, run after the first with nothing in between, at the same time or later,
  submits again every delete call that the first submitted, in the same order.
\<close>

theorem cleanup_resubmits:
  "videos (cleanup_expired_videos t1 s) = videos s
   \<and> (t1 \<le> t2 \<longrightarrow>
        subseq (submitted s (cleanup_expired_videos t1 s))
               (submitted (cleanup_expired_videos t1 s)
                  (cleanup_expired_videos t2 (cleanup_expired_videos t1 s))))"
proof -
  have v: "videos (cleanup_expired_videos t1 s) = videos s"
    by (simp add: cleanup_expired_videos_def cleanup_loop_videos)
  show ?thesis
    using v cleanup_calls_later [of t1 t2 "videos s"]
    by (simp add: submitted_cleanup find_all_def)
qed

theorem cleanup_resubmits_witness:
  "(100::int) \<le> 160
   \<and> submitted state_published (cleanup_expired_videos 100 state_published)
       = [DeleteCall vidA_str ''yt123'' userB_str []]
   \<and> submitted (cleanup_expired_videos 100 state_published)
        (cleanup_expired_videos 160 (cleanup_expired_videos 100 state_published))
       = [DeleteCall vidA_str ''yt123'' userB_str []]
   \<and> subseq (submitted state_published (cleanup_expired_videos 100 state_published))
        (submitted (cleanup_expired_videos 100 state_published)
           (cleanup_expired_videos 160 (cleanup_expired_videos 100 state_published)))"
proof -
  have v: "videos (cleanup_expired_videos 100 state_published) = videos state_published"
    by (simp add: cleanup_expired_videos_def cleanup_loop_videos)
  have a: "submitted state_published (cleanup_expired_videos 100 state_published)
       = [DeleteCall vidA_str ''yt123'' userB_str []]"
    by (simp add: submitted_cleanup find_all_def cleanup_query_def state_published_def
        video_published_def video_uploaded_def no_schedule_def)
  have b: "submitted (cleanup_expired_videos 100 state_published)
        (cleanup_expired_videos 160 (cleanup_expired_videos 100 state_published))
       = [DeleteCall vidA_str ''yt123'' userB_str []]"
    by (simp add: submitted_cleanup v)
      (simp add: find_all_def cleanup_query_def state_published_def
        video_published_def video_uploaded_def no_schedule_def)
  have l: "(100::int) \<le> 160"
    by simp
  from cleanup_resubmits [of 100 state_published 160] l
  have c: "subseq (submitted state_published (cleanup_expired_videos 100 state_published))
        (submitted (cleanup_expired_videos 100 state_published)
           (cleanup_expired_videos 160 (cleanup_expired_videos 100 state_published)))"
    by blast
  from a b c l show ?thesis
    by blast
qed

section \<open>What every run preserves\<close>

text \<open>
  A property of video documents that every write of the routes keeps holds of all
  stored videos after any run, if it did before: the tasks and the sweep leave the
  video collection as it is.
\<close>

lemma update_one_pres:
  "\<forall>d\<in>set docs. P d \<Longrightarrow> (\<And>d. P d \<Longrightarrow> P (f d)) \<Longrightarrow> \<forall>d\<in>set (update_one q f docs). P d"
  using set_update_one [of _ q f docs] by blast

lemma delete_one_pres:
  "\<forall>d\<in>set docs. P d \<Longrightarrow> \<forall>d\<in>set (delete_one q docs). P d"
  using set_delete_one [of _ q docs] by blast

lemma update_video_pres:
  assumes "\<And>d u n. P d \<Longrightarrow> P (apply_update u n d)" and "\<forall>d\<in>set (videos s). P d"
  shows "\<forall>d\<in>set (videos (snd (update_video now u v upd s))). P d"
  using assms update_one_pres [of "videos s" P "apply_update upd now"]
  by (simp add: update_video_def Let_def split: sum.splits option.splits)

lemma delete_video_route_pres:
  assumes "\<forall>d\<in>set (videos s). P d"
  shows "\<forall>d\<in>set (videos (snd (delete_video_route u v s))). P d"
  using assms delete_one_pres [of "videos s" P]
  by (simp add: delete_video_route_def split: sum.splits option.splits)

lemma schedule_upload_pres:
  assumes "\<And>d a c n. P d \<Longrightarrow> P (set_upload_schedule a c n d)"
    and "\<And>d t. P d \<Longrightarrow> P (set_upload_job_id t d)"
    and "\<forall>d\<in>set (videos s). P d"
  shows "\<forall>d\<in>set (videos (snd (schedule_upload now u v at c s))). P d"
proof -
  have "\<forall>d\<in>set (update_one q (set_upload_job_id t) (update_one q (set_upload_schedule at cid now) (videos s))). P d"
    for q t cid
    by (intro update_one_pres assms)
  then show ?thesis
    using assms(3)
    by (simp add: schedule_upload_def Let_def apply_async_def split: sum.splits option.splits)
qed

lemma schedule_delete_pres:
  assumes "\<And>d a n. P d \<Longrightarrow> P (set_delete_schedule a n d)"
    and "\<And>d t. P d \<Longrightarrow> P (set_delete_job_id t d)"
    and "\<forall>d\<in>set (videos s). P d"
  shows "\<forall>d\<in>set (videos (snd (schedule_delete now u v at s))). P d"
proof -
  have "\<forall>d\<in>set (update_one q (set_delete_job_id t) (update_one q (set_delete_schedule at now) (videos s))). P d"
    for q t
    by (intro update_one_pres assms)
  then show ?thesis
    using assms(3)
    by (simp add: schedule_delete_def Let_def apply_async_def split: sum.splits option.splits)
qed

lemma step_pres:
  assumes "\<And>d u n. P d \<Longrightarrow> P (apply_update u n d)"
    and "\<And>d a c n. P d \<Longrightarrow> P (set_upload_schedule a c n d)"
    and "\<And>d t. P d \<Longrightarrow> P (set_upload_job_id t d)"
    and "\<And>d a n. P d \<Longrightarrow> P (set_delete_schedule a n d)"
    and "\<And>d t. P d \<Longrightarrow> P (set_delete_job_id t d)"
    and "\<forall>d\<in>set (videos s). P d"
  shows "\<forall>d\<in>set (videos (step e s)). P d"
proof (cases e)
  case UploadVideo
  then show ?thesis using assms(6) by (simp add: upload_video_route_def)
next
  case (UpdateVideo now u v upd)
  then show ?thesis using update_video_pres [of P s, OF assms(1) assms(6)] by simp
next
  case (DeleteVideo u v)
  then show ?thesis using delete_video_route_pres [of s P, OF assms(6)] by simp
next
  case (ScheduleUpload now u v at c)
  then show ?thesis using schedule_upload_pres [of P s, OF assms(2) assms(3) assms(6)] by simp
next
  case (ScheduleDelete now u v at)
  then show ?thesis using schedule_delete_pres [of P s, OF assms(4) assms(5) assms(6)] by simp
next
  case (RunTask rm now i)
  then show ?thesis using assms(6) by (simp add: run_task_videos)
next
  case (Cleanup now)
  then show ?thesis using assms(6) by (simp add: cleanup_expired_videos_def cleanup_loop_videos)
qed

lemma run_pres:
  assumes "\<And>d u n. P d \<Longrightarrow> P (apply_update u n d)"
    and "\<And>d a c n. P d \<Longrightarrow> P (set_upload_schedule a c n d)"
    and "\<And>d t. P d \<Longrightarrow> P (set_upload_job_id t d)"
    and "\<And>d a n. P d \<Longrightarrow> P (set_delete_schedule a n d)"
    and "\<And>d t. P d \<Longrightarrow> P (set_delete_job_id t d)"
    and "\<forall>d\<in>set (videos s). P d"
  shows "\<forall>d\<in>set (videos (run es s)). P d"
  using assms(6)
proof (induction es arbitrary: s)
  case Nil
  then show ?case by simp
next
  case (Cons e es)
  have "\<forall>d\<in>set (videos (step e s)). P d"
    by (rule step_pres [of P, OF assms(1-5) Cons.prems])
  then show ?case
    using Cons.IH by simp
qed

section \<open>Status invariants\<close>

lemma schedule_upload_video:
  assumes "ObjectId video_id = Inr vid" and "ObjectId channel = Inr cid"
    and "find_one (\<lambda>d. v_id d = vid) (videos s) = Some d" and "v_user_id d = current_user"
  shows "find_one (\<lambda>d. v_id d = vid)
           (videos (snd (schedule_upload now current_user video_id scheduled_at channel s)))
         = Some (d\<lparr>schedule := (schedule d)\<lparr>upload_scheduled_at := Some scheduled_at,
                                  schedule_youtube_channel_id := Some cid,
                                  upload_job_id := Some (next_task_id s)\<rparr>,
                status := SCHEDULED, updated_at := now\<rparr>)"
proof -
  have i: "v_id d = vid"
    using find_one_Some [OF assms(3)] by simp
  have "find_one (\<lambda>d. v_id d = vid)
             (update_one (\<lambda>d. v_id d = vid)
                (set_upload_job_id (next_task_id s) \<circ> set_upload_schedule scheduled_at cid now)
                (videos s))
           = Some ((set_upload_job_id (next_task_id s) \<circ> set_upload_schedule scheduled_at cid now) d)"
    using find_one_update [OF assms(3)] i
    by (simp add: set_upload_job_id_def set_upload_schedule_def)
  then show ?thesis
    by (simp add: schedule_upload_found [OF assms] set_upload_job_id_def set_upload_schedule_def)
qed

text \<open>
  C7, against the claim: \<open>schedule_upload\<close> at time 100 for time 5 on a \<open>published\<close>
  video puts it in \<open>scheduled\<close> with an \<open>upload_scheduled_at\<close> that lies in the past:
  a move to \<open>scheduled\<close> from a status other than \<open>uploaded\<close>, a transition that the
  table does not have, and a \<open>scheduled\<close> video without a future upload time. The same
  call on an \<open>uploaded\<close> video also gives a \<open>scheduled\<close> video whose upload time is
  past.
\<close>

theorem schedule_upload_counterexample:
  "status video_published = PUBLISHED
   \<and> map status (videos (snd (schedule_upload 100 userB vidA_str 5 chanC_str state_published))) = [SCHEDULED]
   \<and> map (upload_scheduled_at \<circ> schedule)
       (videos (snd (schedule_upload 100 userB vidA_str 5 chanC_str state_published))) = [Some 5]
   \<and> (5::int) < 100
   \<and> status video_uploaded = UPLOADED
   \<and> map status (videos (run [ScheduleUpload 100 userB vidA_str 5 chanC_str] state_uploaded)) = [SCHEDULED]
   \<and> map (upload_scheduled_at \<circ> schedule)
       (videos (run [ScheduleUpload 100 userB vidA_str 5 chanC_str] state_uploaded)) = [Some 5]"
  by (simp add: schedule_upload_def ObjectId_vidA ObjectId_chanC find_one_def state_published_def
      state_uploaded_def video_published_def video_uploaded_def apply_async_def
      set_upload_schedule_def set_upload_job_id_def)

text \<open>
  C7, as amended. The status is a value of the enumeration by its type. Along every
  run of the core's operations, from a state where every \<open>published\<close> video has a
  remote video id, every \<open>published\<close> video has one. And \<open>schedule_upload\<close> puts the
  video it finds in \<open>scheduled\<close> with the given \<open>upload_scheduled_at\<close>, whatever the
  video's status was and whatever the time given.
\<close>

theorem published_keeps_remote_id:
  assumes "\<forall>d\<in>set (videos s). status d = PUBLISHED \<longrightarrow> youtube_video_id (schedule d) \<noteq> None"
  shows "(\<forall>d\<in>set (videos (run es s)).
            status d = PUBLISHED \<longrightarrow> youtube_video_id (schedule d) \<noteq> None)
       \<and> (ObjectId video_id = Inr vid \<and> ObjectId channel = Inr cid
           \<and> find_one (\<lambda>d. v_id d = vid) (videos s) = Some v \<and> v_user_id v = current_user \<longrightarrow>
            find_one (\<lambda>d. v_id d = vid)
              (videos (snd (schedule_upload now current_user video_id scheduled_at channel s)))
            = Some (v\<lparr>schedule := (schedule v)\<lparr>upload_scheduled_at := Some scheduled_at,
                                     schedule_youtube_channel_id := Some cid,
                                     upload_job_id := Some (next_task_id s)\<rparr>,
                   status := SCHEDULED, updated_at := now\<rparr>))"
proof
  show "\<forall>d\<in>set (videos (run es s)).
            status d = PUBLISHED \<longrightarrow> youtube_video_id (schedule d) \<noteq> None"
    by (rule run_pres [of "\<lambda>d. status d = PUBLISHED \<longrightarrow> youtube_video_id (schedule d) \<noteq> None",
          OF _ _ _ _ _ assms])
      (simp_all add: apply_update_def set_upload_schedule_def set_upload_job_id_def
        set_delete_schedule_def set_delete_job_id_def)
next
  show "ObjectId video_id = Inr vid \<and> ObjectId channel = Inr cid
           \<and> find_one (\<lambda>d. v_id d = vid) (videos s) = Some v \<and> v_user_id v = current_user \<longrightarrow>
            find_one (\<lambda>d. v_id d = vid)
              (videos (snd (schedule_upload now current_user video_id scheduled_at channel s)))
            = Some (v\<lparr>schedule := (schedule v)\<lparr>upload_scheduled_at := Some scheduled_at,
                                     schedule_youtube_channel_id := Some cid,
                                     upload_job_id := Some (next_task_id s)\<rparr>,
                   status := SCHEDULED, updated_at := now\<rparr>)"
    using schedule_upload_video by blast
qed


theorem published_keeps_remote_id_witness:
  "map status (videos state_published) = [PUBLISHED]
   \<and> map (youtube_video_id \<circ> schedule) (videos state_published) = [Some ''yt123'']
   \<and> map status (videos (run [ScheduleDelete 100 userB vidA_str 200, Cleanup 300] state_published))
       = [PUBLISHED]
   \<and> list_all (\<lambda>d. youtube_video_id (schedule d) \<noteq> None)
       (videos (run [ScheduleDelete 100 userB vidA_str 200, Cleanup 300] state_published))
   \<and> ObjectId vidA_str = Inr vidA \<and> ObjectId chanC_str = Inr chanC
   \<and> find_one (\<lambda>d. v_id d = vidA) (videos state_published) = Some video_published
   \<and> v_user_id video_published = userB
   \<and> find_one (\<lambda>d. v_id d = vidA)
        (videos (snd (schedule_upload 100 userB vidA_str 5 chanC_str state_published)))
       = Some (video_published\<lparr>schedule := (schedule video_published)\<lparr>upload_scheduled_at := Some 5,
                                     schedule_youtube_channel_id := Some chanC,
                                     upload_job_id := Some (next_task_id state_published)\<rparr>,
                   status := SCHEDULED, updated_at := 100\<rparr>)"
proof -
  let ?es = "[ScheduleDelete 100 userB vidA_str 200, Cleanup 300]"
  have h: "\<forall>d\<in>set (videos state_published).
             status d = PUBLISHED \<longrightarrow> youtube_video_id (schedule d) \<noteq> None"
    by (simp add: state_published_def video_published_def)
  have a: "map status (videos state_published) = [PUBLISHED]"
    by (simp add: state_published_def video_published_def)
  have b: "map (youtube_video_id \<circ> schedule) (videos state_published) = [Some ''yt123'']"
    by (simp add: state_published_def video_published_def)
  have c: "map status (videos (run ?es state_published)) = [PUBLISHED]"
    by (simp add: schedule_delete_def ObjectId_vidA find_one_def state_published_def
        video_published_def video_uploaded_def apply_async_def set_delete_schedule_def
        set_delete_job_id_def cleanup_expired_videos_def cleanup_loop_videos)
  have f: "find_one (\<lambda>d. v_id d = vidA) (videos state_published) = Some video_published"
    by (simp add: find_one_def state_published_def video_published_def video_uploaded_def)
  have u: "v_user_id video_published = userB"
    by (simp add: video_published_def video_uploaded_def)
  note t = published_keeps_remote_id [OF h, where es = ?es and video_id = vidA_str and vid = vidA
      and channel = chanC_str and cid = chanC and v = video_published and current_user = userB
      and now = 100 and scheduled_at = 5]
  from t c have d: "list_all (\<lambda>d. youtube_video_id (schedule d) \<noteq> None) (videos (run ?es state_published))"
    by (auto simp: list_all_iff)
  from t f u ObjectId_vidA ObjectId_chanC
  have e: "find_one (\<lambda>d. v_id d = vidA)
        (videos (snd (schedule_upload 100 userB vidA_str 5 chanC_str state_published)))
       = Some (video_published\<lparr>schedule := (schedule video_published)\<lparr>upload_scheduled_at := Some 5,
                                     schedule_youtube_channel_id := Some chanC,
                                     upload_job_id := Some (next_task_id state_published)\<rparr>,
                   status := SCHEDULED, updated_at := 100\<rparr>)"
    by blast
  from a b c d e f u ObjectId_vidA ObjectId_chanC show ?thesis
    by blast
qed

section \<open>The channel id and the remote id in the sweep\<close>

text \<open>Every call the sweep submits comes from a video whose remote id is true.\<close>

lemma cleanup_calls_origin:
  "c \<in> set (cleanup_calls vs) \<Longrightarrow>
     \<exists>d yt. d \<in> set vs \<and> youtube_video_id (schedule d) = Some yt \<and> yt \<noteq> []
        \<and> c = DeleteCall (str_oid (v_id d)) yt (str_oid (v_user_id d))
                (case youtube_channel_id d of None \<Rightarrow> [] | Some x \<Rightarrow> x)"
proof (induction vs)
  case Nil
  then show ?case by simp
next
  case (Cons v vs)
  show ?case
  proof (cases "youtube_video_id (schedule v)")
    case None
    then show ?thesis using Cons by auto
  next
    case (Some yt)
    show ?thesis
    proof (cases "yt = []")
      case True
      then show ?thesis using Some Cons by auto
    next
      case False
      then have "c = DeleteCall (str_oid (v_id v)) yt (str_oid (v_user_id v))
                       (case youtube_channel_id v of None \<Rightarrow> [] | Some x \<Rightarrow> x)
                 \<or> c \<in> set (cleanup_calls vs)"
        using Some Cons.prems by simp
      then show ?thesis
      proof
        assume "c = DeleteCall (str_oid (v_id v)) yt (str_oid (v_user_id v))
                       (case youtube_channel_id v of None \<Rightarrow> [] | Some x \<Rightarrow> x)"
        then show ?thesis using Some False by auto
      next
        assume "c \<in> set (cleanup_calls vs)"
        then show ?thesis using Cons.IH by auto
      qed
    qed
  qed
qed

text \<open>
  C9. From a state where no video document has the top-level key
  \<open>youtube_channel_id\<close>, no run of the core's operations gives it to any document;
  so every delete call that a sweep submits after such a run has the empty string
  as its channel id. \<open>schedule_upload\<close> stores the channel under
  \<open>schedule.youtube_channel_id\<close> and leaves the top-level key absent.
\<close>

theorem cleanup_channel_id_empty:
  assumes "\<forall>d\<in>set (videos s). youtube_channel_id d = None"
  shows "(\<forall>d\<in>set (videos (run es s)). youtube_channel_id d = None)
       \<and> (\<forall>c\<in>set (submitted (run es s) (cleanup_expired_videos now (run es s))).
             \<exists>v yt u. c = DeleteCall v yt u [])
       \<and> (ObjectId video_id = Inr vid \<and> ObjectId channel = Inr cid
           \<and> find_one (\<lambda>d. v_id d = vid) (videos s) = Some v \<and> v_user_id v = current_user \<longrightarrow>
            (\<exists>d'. find_one (\<lambda>d. v_id d = vid)
                     (videos (snd (schedule_upload t current_user video_id scheduled_at channel s)))
                   = Some d'
                 \<and> schedule_youtube_channel_id (schedule d') = Some cid
                 \<and> youtube_channel_id d' = None))"
proof (intro conjI)
  show r: "\<forall>d\<in>set (videos (run es s)). youtube_channel_id d = None"
    by (rule run_pres [of "\<lambda>d. youtube_channel_id d = None", OF _ _ _ _ _ assms])
      (simp_all add: apply_update_def set_upload_schedule_def set_upload_job_id_def
        set_delete_schedule_def set_delete_job_id_def)
  show "\<forall>c\<in>set (submitted (run es s) (cleanup_expired_videos now (run es s))).
             \<exists>v yt u. c = DeleteCall v yt u []"
  proof
    fix c
    assume "c \<in> set (submitted (run es s) (cleanup_expired_videos now (run es s)))"
    then have "c \<in> set (cleanup_calls (find_all (cleanup_query now) (videos (run es s))))"
      by (simp add: submitted_cleanup)
    then obtain d yt where d: "d \<in> set (find_all (cleanup_query now) (videos (run es s)))"
      and c: "c = DeleteCall (str_oid (v_id d)) yt (str_oid (v_user_id d))
                (case youtube_channel_id d of None \<Rightarrow> [] | Some x \<Rightarrow> x)"
      using cleanup_calls_origin by blast
    have "youtube_channel_id d = None"
      using d r by (simp add: find_all_def)
    then show "\<exists>v yt u. c = DeleteCall v yt u []"
      using c by simp
  qed
  show "ObjectId video_id = Inr vid \<and> ObjectId channel = Inr cid
           \<and> find_one (\<lambda>d. v_id d = vid) (videos s) = Some v \<and> v_user_id v = current_user \<longrightarrow>
            (\<exists>d'. find_one (\<lambda>d. v_id d = vid)
                     (videos (snd (schedule_upload t current_user video_id scheduled_at channel s)))
                   = Some d'
                 \<and> schedule_youtube_channel_id (schedule d') = Some cid
                 \<and> youtube_channel_id d' = None)"
  proof
    assume a: "ObjectId video_id = Inr vid \<and> ObjectId channel = Inr cid
           \<and> find_one (\<lambda>d. v_id d = vid) (videos s) = Some v \<and> v_user_id v = current_user"
    then have "youtube_channel_id v = None"
      using assms find_one_Some [of "\<lambda>d. v_id d = vid" "videos s" v] by blast
    then show "\<exists>d'. find_one (\<lambda>d. v_id d = vid)
                     (videos (snd (schedule_upload t current_user video_id scheduled_at channel s)))
                   = Some d'
                 \<and> schedule_youtube_channel_id (schedule d') = Some cid
                 \<and> youtube_channel_id d' = None"
      using a schedule_upload_video [of video_id vid channel cid s v current_user t scheduled_at]
      by simp
  qed
qed

theorem cleanup_channel_id_empty_witness:
  "map youtube_channel_id (videos state_published) = [None]
   \<and> submitted
        (run [ScheduleUpload 10 userB vidA_str 20 chanC_str, UpdateVideo 30 userB vidA_str
               \<lparr>upd_title = None, upd_description = None, upd_tags = None, upd_privacy = None,
                upd_thumbnail_url = None\<rparr>] state_published)
        (cleanup_expired_videos 100
          (run [ScheduleUpload 10 userB vidA_str 20 chanC_str, UpdateVideo 30 userB vidA_str
                 \<lparr>upd_title = None, upd_description = None, upd_tags = None, upd_privacy = None,
                  upd_thumbnail_url = None\<rparr>] state_published))
       = [DeleteCall vidA_str ''yt123'' userB_str []]
   \<and> ObjectId vidA_str = Inr vidA \<and> ObjectId chanC_str = Inr chanC
   \<and> find_one (\<lambda>d. v_id d = vidA) (videos state_published) = Some video_published
   \<and> v_user_id video_published = userB
   \<and> map (schedule_youtube_channel_id \<circ> schedule)
        (videos (snd (schedule_upload 10 userB vidA_str 20 chanC_str state_published))) = [Some chanC]
   \<and> map youtube_channel_id
        (videos (snd (schedule_upload 10 userB vidA_str 20 chanC_str state_published))) = [None]"
proof -
  let ?es = "[ScheduleUpload 10 userB vidA_str 20 chanC_str, UpdateVideo 30 userB vidA_str
               \<lparr>upd_title = None, upd_description = None, upd_tags = None, upd_privacy = None,
                upd_thumbnail_url = None\<rparr>]"
  have h: "\<forall>d\<in>set (videos state_published). youtube_channel_id d = None"
    by (simp add: state_published_def video_published_def video_uploaded_def)
  have a: "map youtube_channel_id (videos state_published) = [None]"
    by (simp add: state_published_def video_published_def video_uploaded_def)
  have f: "find_one (\<lambda>d. v_id d = vidA) (videos state_published) = Some video_published"
    by (simp add: find_one_def state_published_def video_published_def video_uploaded_def)
  have u: "v_user_id video_published = userB"
    by (simp add: video_published_def video_uploaded_def)
  have v: "videos (snd (schedule_upload 10 userB vidA_str 20 chanC_str state_published))
            = [video_published\<lparr>schedule := (schedule video_published)\<lparr>upload_scheduled_at := Some 20,
                                     schedule_youtube_channel_id := Some chanC,
                                     upload_job_id := Some 0\<rparr>,
                   status := SCHEDULED, updated_at := 10\<rparr>]"
    by (simp add: schedule_upload_def ObjectId_vidA ObjectId_chanC find_one_def state_published_def
        video_published_def video_uploaded_def apply_async_def set_upload_schedule_def
        set_upload_job_id_def)
  have w: "videos (snd (update_video 30 userB vidA_str
               \<lparr>upd_title = None, upd_description = None, upd_tags = None, upd_privacy = None,
                upd_thumbnail_url = None\<rparr>
               (snd (schedule_upload 10 userB vidA_str 20 chanC_str state_published))))
            = [video_published\<lparr>schedule := (schedule video_published)\<lparr>upload_scheduled_at := Some 20,
                                     schedule_youtube_channel_id := Some chanC,
                                     upload_job_id := Some 0\<rparr>,
                   status := SCHEDULED, updated_at := 30\<rparr>]"
    using v
    by (simp add: update_video_def ObjectId_vidA find_one_def apply_update_def
        video_published_def video_uploaded_def)
  have b: "submitted (run ?es state_published) (cleanup_expired_videos 100 (run ?es state_published))
            = [DeleteCall vidA_str ''yt123'' userB_str []]"
    by (simp add: submitted_cleanup w find_all_def cleanup_query_def video_published_def
        video_uploaded_def no_schedule_def)
  note t = cleanup_channel_id_empty [OF h, where es = ?es and now = 100 and video_id = vidA_str
      and vid = vidA and channel = chanC_str and cid = chanC and v = video_published
      and current_user = userB and t = 10 and scheduled_at = 20]
  have c: "map (schedule_youtube_channel_id \<circ> schedule)
        (videos (snd (schedule_upload 10 userB vidA_str 20 chanC_str state_published))) = [Some chanC]"
    by (simp add: v)
  have d: "map youtube_channel_id
        (videos (snd (schedule_upload 10 userB vidA_str 20 chanC_str state_published))) = [None]"
    using t by (simp add: v video_published_def video_uploaded_def)
  from a b c d f u ObjectId_vidA ObjectId_chanC show ?thesis
    by blast
qed

lemma cleanup_calls_filter:
  "c \<in> set (cleanup_calls (filter q vs)) \<Longrightarrow> c \<in> set (cleanup_calls vs)"
  by (induction vs) (auto split: option.splits if_splits)

lemma run_cleanups:
  "videos (run (map Cleanup ts) s) = videos s
   \<and> (\<exists>tk. queue (run (map Cleanup ts) s) = queue s @ tk
          \<and> (\<forall>c\<in>set (map call tk). c \<in> set (cleanup_calls (videos s))))"
proof (induction ts arbitrary: s)
  case Nil
  then show ?case by simp
next
  case (Cons t ts)
  let ?s1 = "cleanup_expired_videos t s"
  have v: "videos ?s1 = videos s"
    by (simp add: cleanup_expired_videos_def cleanup_loop_videos)
  obtain tk1 where q1: "queue ?s1 = queue s @ tk1"
    and c1: "map call tk1 = cleanup_calls (find_all (cleanup_query t) (videos s))"
    using cleanup_loop_queue [of "find_all (cleanup_query t) (videos s)" s]
    by (auto simp: cleanup_expired_videos_def)
  obtain tk2 where q2: "queue (run (map Cleanup ts) ?s1) = queue ?s1 @ tk2"
    and c2: "\<forall>c\<in>set (map call tk2). c \<in> set (cleanup_calls (videos ?s1))"
    using Cons [of ?s1] by blast
  have "queue (run (map Cleanup (t # ts)) s) = queue s @ (tk1 @ tk2)"
    using q1 q2 by simp
  moreover have "\<forall>c\<in>set (map call (tk1 @ tk2)). c \<in> set (cleanup_calls (videos s))"
    using c1 c2 v cleanup_calls_filter [of _ "cleanup_query t" "videos s"]
    by (auto simp: find_all_def)
  moreover have "videos (run (map Cleanup (t # ts)) s) = videos s"
    using Cons [of ?s1] v by simp
  ultimately show ?case by blast
qed

text \<open>
  C10. A stored video that the sweep's query matches at time \<open>now\<close> and whose
  \<open>schedule.youtube_video_id\<close> is null (or empty): the sweep at \<open>now\<close> and any number
  of later sweeps leave the video collection as it was and submit no delete call for
  that video, while the query goes on matching it at every later time. Ids are
  distinct, as Mongo's \<open>_id\<close> is.
\<close>

theorem cleanup_skips_without_remote_id:
  assumes "d \<in> set (videos s)" and "cleanup_query now d"
    and "\<not> truthy (youtube_video_id (schedule d))"
    and "distinct (map v_id (videos s))"
  shows "videos (run (map Cleanup (now # later)) s) = videos s
       \<and> (\<forall>c\<in>set (submitted s (run (map Cleanup (now # later)) s)).
             \<forall>yt u ch. c \<noteq> DeleteCall (str_oid (v_id d)) yt u ch)
       \<and> (\<forall>t\<in>set later. now \<le> t \<longrightarrow> cleanup_query t d)"
proof (intro conjI)
  show "videos (run (map Cleanup (now # later)) s) = videos s"
    using run_cleanups [of "now # later" s] by blast
  show "\<forall>c\<in>set (submitted s (run (map Cleanup (now # later)) s)).
             \<forall>yt u ch. c \<noteq> DeleteCall (str_oid (v_id d)) yt u ch"
  proof (intro ballI allI notI)
    fix c yt u ch
    assume c: "c \<in> set (submitted s (run (map Cleanup (now # later)) s))"
      and e: "c = DeleteCall (str_oid (v_id d)) yt u ch"
    obtain tk where q: "queue (run (map Cleanup (now # later)) s) = queue s @ tk"
      and k: "\<forall>c\<in>set (map call tk). c \<in> set (cleanup_calls (videos s))"
      using run_cleanups [of "now # later" s] by blast
    have "c \<in> set (cleanup_calls (videos s))"
      using c q k by (auto simp: submitted_def)
    then obtain d' yt' where m: "d' \<in> set (videos s)"
      and y: "youtube_video_id (schedule d') = Some yt'" and n: "yt' \<noteq> []"
      and c': "c = DeleteCall (str_oid (v_id d')) yt' (str_oid (v_user_id d'))
                (case youtube_channel_id d' of None \<Rightarrow> [] | Some x \<Rightarrow> x)"
      using cleanup_calls_origin by blast
    have "v_id d' = v_id d"
      using e c' str_oid_inj by simp
    then have "d' = d"
      using assms(1,4) m by (meson distinct_map inj_onD)
    then show False
      using y n assms(3) by (simp add: truthy_def)
  qed
  show "\<forall>t\<in>set later. now \<le> t \<longrightarrow> cleanup_query t d"
    using assms(2) by (auto simp: cleanup_query_def split: option.splits)
qed

theorem cleanup_skips_without_remote_id_witness:
  "video_no_remote \<in> set (videos state_no_remote)
   \<and> cleanup_query 100 video_no_remote
   \<and> \<not> truthy (youtube_video_id (schedule video_no_remote))
   \<and> distinct (map v_id (videos state_no_remote))
   \<and> run (map Cleanup [100, 200, 300]) state_no_remote = state_no_remote
   \<and> submitted state_no_remote (run (map Cleanup [100, 200, 300]) state_no_remote) = []
   \<and> cleanup_query 300 video_no_remote"
proof -
  have a: "video_no_remote \<in> set (videos state_no_remote)"
    by (simp add: state_no_remote_def)
  have b: "cleanup_query 100 video_no_remote"
    by (simp add: cleanup_query_def video_no_remote_def)
  have n: "youtube_video_id (schedule video_no_remote) = None"
    by (simp add: video_no_remote_def no_schedule_def)
  have c: "\<not> truthy (youtube_video_id (schedule video_no_remote))"
    by (simp add: n truthy_def)
  have d: "distinct (map v_id (videos state_no_remote))"
    by (simp add: state_no_remote_def)
  have e: "run (map Cleanup [100, 200, 300]) state_no_remote = state_no_remote"
    by (simp add: cleanup_expired_videos_def find_all_def state_no_remote_def b n)
  have f: "submitted state_no_remote (run (map Cleanup [100, 200, 300]) state_no_remote) = []"
    by (simp only: e) (simp add: submitted_def)
  from cleanup_skips_without_remote_id [OF a b c d, of "[200, 300]"]
  have g: "cleanup_query 300 video_no_remote"
    by simp
  from a b c d e f g show ?thesis
    by blast
qed

section \<open>Credentials in the tasks\<close>

text \<open>
  A credential built from a channel's stored tokens has no expiry, so it does not
  count as expired and \<open>refresh_credentials\<close>, awaited or not, would give it back as
  it is; and no task that a worker runs writes the channel collection
  (\<open>run_task_channels\<close>).
\<close>

lemma get_credentials_not_expired:
  "\<not> expired rm now (get_credentials_from_token access refresh)"
  by (simp add: expired_def get_credentials_from_token_def)

lemma refresh_credentials_from_token:
  "refresh_credentials rm now (get_credentials_from_token access refresh)
     = Some (get_credentials_from_token access refresh)"
  by (simp add: refresh_credentials_def get_credentials_not_expired)

end
